theory Spec2Isabelle
  imports Complex_Main "HOL-Library.AList"
begin

section \<open>Numeric values and library operations\<close>

text \<open>
  The notebooks hold float64 values in pandas columns, numpy arrays and Python lists.
  A finite float is idealised as a real number (rounding and overflow are not modelled);
  NaN, which numpy produces for the mean of an empty list and for \<open>0/0\<close>, is \<open>None\<close>.
\<close>

type_synonym npfloat = "real option"

text \<open>\<open>np.mean\<close> of a list or array: NaN for an empty input, NaN as soon as one entry is NaN.\<close>

definition np_mean :: "npfloat list \<Rightarrow> npfloat" where
  "np_mean xs =
     (case those xs of
        None \<Rightarrow> None
      | Some ys \<Rightarrow> if ys = [] then None else Some (sum_list ys / real (length ys)))"

text \<open>\<open>np.std\<close> with the default \<open>ddof=0\<close>: the population standard deviation.\<close>

definition np_std :: "npfloat list \<Rightarrow> npfloat" where
  "np_std xs =
     (case those xs of
        None \<Rightarrow> None
      | Some ys \<Rightarrow>
          if ys = [] then None
          else (let m = sum_list ys / real (length ys)
                in Some (sqrt (sum_list (map (\<lambda>y. (y - m)\<^sup>2) ys) / real (length ys)))))"

text \<open>
  One standardised value \<open>(x - mean) / std\<close>. With a zero standard deviation the
  quotient is \<open>0/0\<close>, that is NaN, for every value the mean and deviation were computed
  from (each of them equals the mean).
\<close>

definition standardise :: "npfloat \<Rightarrow> npfloat \<Rightarrow> npfloat \<Rightarrow> npfloat" where
  "standardise mn sd x =
     (case (x, mn, sd) of
        (Some v, Some m, Some s) \<Rightarrow> if s = 0 then None else Some ((v - m) / s)
      | _ \<Rightarrow> None)"

text \<open>\<open>scipy.stats.zscore(a)\<close> is \<open>(a - a.mean()) / a.std()\<close>, NaN propagated.\<close>

definition zscore :: "npfloat list \<Rightarrow> npfloat list" where
  "zscore a = map (standardise (np_mean a) (np_std a)) a"

definition np_abs :: "npfloat \<Rightarrow> npfloat" where
  "np_abs x = map_option abs x"

text \<open>A comparison with NaN is false.\<close>

definition np_gt :: "npfloat \<Rightarrow> real \<Rightarrow> bool" where
  "np_gt x t = (case x of None \<Rightarrow> False | Some v \<Rightarrow> t < v)"

subsection \<open>Python slices\<close>

text \<open>
  \<open>xs[a:b]\<close> never raises: a negative bound counts from the end of the list, and every
  bound is clamped to \<open>0 .. len(xs)\<close>.
\<close>

definition slice_bound :: "nat \<Rightarrow> int \<Rightarrow> nat" where
  "slice_bound n i = (if i < 0 then nat (max 0 (int n + i)) else min n (nat i))"

definition py_slice :: "'a list \<Rightarrow> int \<Rightarrow> int \<Rightarrow> 'a list" where
  "py_slice xs a b =
     (let lo = slice_bound (length xs) a; hi = slice_bound (length xs) b
      in take (hi - lo) (drop lo xs))"

text \<open>\<open>xs[:b]\<close> and \<open>xs[a:]\<close>.\<close>

definition py_slice_to :: "'a list \<Rightarrow> int \<Rightarrow> 'a list" where
  "py_slice_to xs b = py_slice xs 0 b"

definition py_slice_from :: "'a list \<Rightarrow> int \<Rightarrow> 'a list" where
  "py_slice_from xs a = py_slice xs a (int (length xs))"

section \<open>Outlier detection and cleaning with a neighbour mean\<close>

text \<open>
  Polar Verity Sense, Polar H10 and Abbott FreeStyle Libre share one cell:
  \<^verbatim>\<open>
  z_scores = np.abs(stats.zscore(nx))
  hr['z'] = z_scores
  cx = list(hr["bpm"].values)
  for idx in hr.index[hr['z'] > threshold].tolist():
    vals = cx[idx-3:idx-2]+cx[idx-2:idx-1]+cx[idx+1:idx+2]+cx[idx+2:idx+3]
    mean_val = np.mean(vals)
    hr.loc[idx, 'bpm'] = mean_val
  \<close>
  The frame has the default index \<open>0 .. n-1\<close> (it was built with \<open>ignore_index=True\<close>), so
  an index label is a position.
\<close>

definition abs_zscores :: "npfloat list \<Rightarrow> npfloat list" where
  "abs_zscores nx = map np_abs (zscore nx)"

text \<open>\<open>hr.index[hr['z'] > threshold].tolist()\<close>: the flagged positions, ascending.\<close>

definition flagged_indices :: "npfloat list \<Rightarrow> real \<Rightarrow> nat list" where
  "flagged_indices z threshold = filter (\<lambda>i. np_gt (z ! i) threshold) [0..<length z]"

definition neighbour_vals :: "'a list \<Rightarrow> nat \<Rightarrow> 'a list" where
  "neighbour_vals cx idx =
     py_slice cx (int idx - 3) (int idx - 2) @ py_slice cx (int idx - 2) (int idx - 1) @
     py_slice cx (int idx + 1) (int idx + 2) @ py_slice cx (int idx + 2) (int idx + 3)"

text \<open>One iteration of the loop: \<open>cx\<close> is the snapshot, \<open>col\<close> the column being written.\<close>

definition replace_step :: "npfloat list \<Rightarrow> nat \<Rightarrow> npfloat list \<Rightarrow> npfloat list" where
  "replace_step cx idx col = col[idx := np_mean (neighbour_vals cx idx)]"

definition replace_loop :: "npfloat list \<Rightarrow> nat list \<Rightarrow> npfloat list \<Rightarrow> npfloat list" where
  "replace_loop cx idxs col = fold (replace_step cx) idxs col"

definition detect_and_clean :: "npfloat list \<Rightarrow> real \<Rightarrow> npfloat list" where
  "detect_and_clean bpm threshold =
     (let z = abs_zscores bpm;
          cx = bpm
      in replace_loop cx (flagged_indices z threshold) bpm)"

subsection \<open>The neighbour-distance cell and the notebook's variables\<close>

text \<open>
  The cell before the detection computes, for every window of five consecutive samples,
  \<^verbatim>\<open>
  for l1, l2, m, r1, r2 in zip(nx[:-4],nx[1:-3],nx[2:-2],nx[3:-1],nx[4:]):
    difference = math.sqrt(f(m-l1)+f(m-l2)+f(m-r1)+f(m-r2))
    distances.append(difference)
  \<close>
  The argument of the square root is a sum of squares, so \<open>math.sqrt\<close> does not raise.
\<close>

definition difference :: "npfloat \<times> npfloat \<times> npfloat \<times> npfloat \<times> npfloat \<Rightarrow> npfloat" where
  "difference = (\<lambda>(l1, l2, m, r1, r2).
     (case those [l1, l2, m, r1, r2] of
        Some [a, b, c, d, e] \<Rightarrow> Some (sqrt ((c - a)\<^sup>2 + (c - b)\<^sup>2 + (c - d)\<^sup>2 + (c - e)\<^sup>2))
      | _ \<Rightarrow> None))"

definition distances_of :: "npfloat list \<Rightarrow> npfloat list" where
  "distances_of nx =
     map difference
       (zip (py_slice_to nx (-4)) (zip (py_slice nx 1 (-3)) (zip (py_slice nx 2 (-2))
         (zip (py_slice nx 3 (-1)) (py_slice_from nx 4)))))"

text \<open>
  The variables the two cells read and write: the columns \<open>bpm\<close> and \<open>z\<close> of the frame
  \<open>hr\<close>, and the list \<open>distances\<close>.
\<close>

record notebook =
  hr_bpm :: "npfloat list"
  hr_z :: "npfloat list"
  distances :: "npfloat list"

definition distances_cell :: "notebook \<Rightarrow> notebook" where
  "distances_cell s = s\<lparr>distances := distances_of (hr_bpm s)\<rparr>"

definition outlier_cell :: "real \<Rightarrow> notebook \<Rightarrow> notebook" where
  "outlier_cell threshold s =
     (let nx = hr_bpm s;
          z_scores = abs_zscores nx;
          s1 = s\<lparr>hr_z := z_scores\<rparr>;
          cx = hr_bpm s1
      in s1\<lparr>hr_bpm := replace_loop cx (flagged_indices (hr_z s1) threshold) (hr_bpm s1)\<rparr>)"

text \<open>The rows the cell prints and loops over: \<open>hr.index[hr['z'] > threshold]\<close>.\<close>

definition flagged_rows :: "real \<Rightarrow> notebook \<Rightarrow> nat list" where
  "flagged_rows threshold s = flagged_indices (hr_z s) threshold"

subsection \<open>The neighbour rule as the specification words it\<close>



section \<open>Outlier removal (Whoop)\<close>

text \<open>
  \<^verbatim>\<open>
  def clean_data(data, z_threshold):
      mean_data = np.mean(data)
      std_data = np.std(data)
      z_scores = (data - mean_data) / std_data
      outliers = np.abs(z_scores) > z_threshold
      cleaned_data = data[~outliers]
      return cleaned_data
  \<close>
  \<open>data\<close> is a pandas Series: \<open>np.mean\<close> and \<open>np.std\<close> hand over to the Series'
  own reductions, which skip NaN (and keep \<open>ddof=0\<close>).
\<close>

definition pd_values :: "npfloat list \<Rightarrow> real list" where
  "pd_values data = map the (filter (\<lambda>x. x \<noteq> None) data)"

definition pd_mean :: "npfloat list \<Rightarrow> npfloat" where
  "pd_mean data =
     (let ys = pd_values data
      in if ys = [] then None else Some (sum_list ys / real (length ys)))"

definition pd_std :: "npfloat list \<Rightarrow> npfloat" where
  "pd_std data =
     (let ys = pd_values data
      in if ys = [] then None
         else (let m = sum_list ys / real (length ys)
               in Some (sqrt (sum_list (map (\<lambda>y. (y - m)\<^sup>2) ys) / real (length ys)))))"

definition clean_data :: "npfloat list \<Rightarrow> real \<Rightarrow> npfloat list" where
  "clean_data data z_threshold =
     (let mean_data = pd_mean data;
          std_data = pd_std data;
          z_scores = map (standardise mean_data std_data) data;
          outliers = map (\<lambda>z. np_gt (np_abs z) z_threshold) z_scores
      in map fst (filter (\<lambda>(x, out). \<not> out) (zip data outliers)))"

section \<open>Outlier replacement in place (Garmin)\<close>

text \<open>
  \<^verbatim>\<open>
  z_scores = zscore(concatenated_data[:, 1])
  outlier_indices = np.where(np.abs(z_scores) > threshold)[0]
  for idx in outlier_indices:
      mean_val = np.mean(concatenated_data[max(0, idx - 5):min(idx + 5, len(concatenated_data)), 1])
      old_data_i = concatenated_data[idx][1]
      old_data.append(old_data_i)
      concatenated_data[idx][1] = mean_val
      new_data.append(mean_val)
  \<close>
  There is no snapshot here: the loop reads the array it writes. numpy converts the
  assigned mean to the array's element type (nothing changes in a float array, the
  fraction is cut off in an integer one); the conversion is the parameter \<open>store\<close>.
\<close>

definition garmin_window :: "'a list \<Rightarrow> nat \<Rightarrow> 'a list" where
  "garmin_window col idx =
     py_slice col (max 0 (int idx - 5)) (min (int idx + 5) (int (length col)))"

record garmin_state =
  hr_col :: "npfloat list"
  old_data :: "npfloat list"
  new_data :: "npfloat list"

definition garmin_step :: "(real \<Rightarrow> real) \<Rightarrow> nat \<Rightarrow> garmin_state \<Rightarrow> garmin_state" where
  "garmin_step store idx s =
     (let mean_val = np_mean (garmin_window (hr_col s) idx);
          old_data_i = hr_col s ! idx
      in \<lparr>hr_col = (hr_col s)[idx := map_option store mean_val],
          old_data = old_data s @ [old_data_i],
          new_data = new_data s @ [mean_val]\<rparr>)"

definition garmin_loop :: "(real \<Rightarrow> real) \<Rightarrow> nat list \<Rightarrow> garmin_state \<Rightarrow> garmin_state" where
  "garmin_loop store idxs s = fold (garmin_step store) idxs s"

definition outlier_indices :: "npfloat list \<Rightarrow> real \<Rightarrow> nat list" where
  "outlier_indices col threshold = flagged_indices (abs_zscores col) threshold"

definition garmin_clean :: "(real \<Rightarrow> real) \<Rightarrow> npfloat list \<Rightarrow> real \<Rightarrow> garmin_state" where
  "garmin_clean store col threshold =
     garmin_loop store (outlier_indices col threshold)
       \<lparr>hr_col = col, old_data = [], new_data = []\<rparr>"

section \<open>Non-adherence simulation\<close>

text \<open>
  \<^verbatim>\<open>
  block_level = "day" #@param ["day", "week"]
  adherence_percent = 0.89 #@param {type:"slider", min:0, max:1, step:0.01}
  if block_level == "day":
      block_length = 1
  elif block_level == "week":
      block_length = 7

  def AdherenceSimulator(data):
    num_blocks = len(data) // block_length
    num_blocks_to_keep = int(adherence_percent * num_blocks)
    idxes = np.random.choice(np.arange(num_blocks), replace=False,
    size=num_blocks_to_keep)
    adhered_data = []
    for i in range(len(data)):
        if i in idxes:
            start = i * block_length
            end = (i + 1) * block_length
            for j in range(i,i+1):
              adhered_data.append(data[j])
    return adhered_data
  \<close>
  The same function is in the MyFitnessPal, Cronometer, Strava and Polar Vantage notebooks.
\<close>

datatype py_error = ValueError | KeyError

datatype block_level = Day | Week

definition block_length :: "block_level \<Rightarrow> nat" where
  "block_length b = (case b of Day \<Rightarrow> 1 | Week \<Rightarrow> 7)"

text \<open>\<open>int(x)\<close> on a float cuts the fraction off, towards zero.\<close>

definition py_int :: "real \<Rightarrow> int" where
  "py_int x = (if 0 \<le> x then \<lfloor>x\<rfloor> else \<lceil>x\<rceil>)"

definition num_blocks :: "block_level \<Rightarrow> 'a list \<Rightarrow> nat" where
  "num_blocks b data = length data div block_length b"

definition num_blocks_to_keep :: "block_level \<Rightarrow> real \<Rightarrow> 'a list \<Rightarrow> int" where
  "num_blocks_to_keep b adherence_percent data =
     py_int (adherence_percent * real (num_blocks b data))"

text \<open>
  \<open>np.random.choice(np.arange(n), replace=False, size=k)\<close> raises ValueError for a negative
  \<open>k\<close> and for \<open>k > n\<close>; otherwise it returns \<open>k\<close> distinct numbers below \<open>n\<close>, in
  any order. The draw is a parameter of the model, and \<open>random_choice\<close> says which draws
  are possible.
\<close>

definition choice_raises :: "nat \<Rightarrow> int \<Rightarrow> bool" where
  "choice_raises n k = (k < 0 \<or> int n < k)"

definition random_choice :: "nat \<Rightarrow> int \<Rightarrow> nat list \<Rightarrow> bool" where
  "random_choice n k idxes =
     (distinct idxes \<and> (\<forall>i \<in> set idxes. i < n) \<and> int (length idxes) = k)"

definition AdherenceSimulator ::
  "block_level \<Rightarrow> real \<Rightarrow> nat list \<Rightarrow> 'a list \<Rightarrow> py_error + 'a list" where
  "AdherenceSimulator b adherence_percent idxes data =
     (if choice_raises (num_blocks b data) (num_blocks_to_keep b adherence_percent data)
      then Inl ValueError
      else Inr (concat (map (\<lambda>i. if i \<in> set idxes then map (\<lambda>j. data ! j) [i..<i + 1] else [])
                          [0..<length data])))"

text \<open>
  The block of week \<open>w\<close> in a series of days, for the claims about whole weeks: the
  positions \<open>7 w .. 7 w + 6\<close>.
\<close>

definition week_positions :: "nat \<Rightarrow> nat list" where
  "week_positions w = [7 * w..<7 * w + 7]"

text \<open>
  The Polar Verity Sense and Polar H10 notebooks simulate non-adherence in a cell of its
  own, over the dictionary of sessions (date \<open>\<mapsto>\<close> session):
  \<^verbatim>\<open>
  dates = np.array(list(data.keys()))
  num_blocks = len(dates) // block_length
  num_blocks_to_remove = int((1-adherence_percent) * num_blocks)
  remove = np.random.choice(dates, replace=False, size=num_blocks_to_remove)
  adhered_data = copy.deepcopy(data)
  adhered_dates = copy.deepcopy(list(data.keys()))
  for key in remove:
    if np.random.rand() < 0.8:
      adhered_data.pop(key)
      adhered_dates.remove(key)
    else:
      adhered_data[key]['heart_rates'] += (list(np.zeros(100)))
  \<close>
  A dictionary is the list of its items in insertion order, the keys distinct. A session
  has its list of heart rates; its other fields are the extension of the record. The
  dates drawn and the numbers \<open>np.random.rand()\<close> returns are parameters, and
  \<open>removal_draw\<close> says which are possible.
\<close>

record session =
  heart_rates :: "real list"

definition num_blocks_to_remove :: "block_level \<Rightarrow> real \<Rightarrow> 'k list \<Rightarrow> int" where
  "num_blocks_to_remove b adherence_percent dates =
     py_int ((1 - adherence_percent) * real (length dates div block_length b))"

definition removal_draw :: "string list \<Rightarrow> int \<Rightarrow> string list \<Rightarrow> real list \<Rightarrow> bool" where
  "removal_draw dates k remove coins =
     (distinct remove \<and> set remove \<subseteq> set dates \<and> int (length remove) = k \<and>
      length coins = length remove \<and> (\<forall>c \<in> set coins. 0 \<le> c \<and> c < 1))"

text \<open>
  \<open>adhered_data.pop(key)\<close> and \<open>adhered_data[key]\<close> raise KeyError on a missing key,
  \<open>adhered_dates.remove(key)\<close> raises ValueError.
\<close>

fun remove_loop ::
  "(string \<times> real) list \<Rightarrow> (string \<times> 'm session_scheme) list \<times> string list \<Rightarrow>
     py_error + ((string \<times> 'm session_scheme) list \<times> string list)" where
  "remove_loop [] st = Inr st"
| "remove_loop ((key, coin) # rest) (adhered_data, adhered_dates) =
     (if map_of adhered_data key = None then Inl KeyError
      else if coin < 8 / 10 then
        (if key \<notin> set adhered_dates then Inl ValueError
         else remove_loop rest (AList.delete key adhered_data, remove1 key adhered_dates))
      else remove_loop rest
             (AList.map_entry key (\<lambda>s. s\<lparr>heart_rates := heart_rates s @ replicate 100 0\<rparr>) adhered_data,
              adhered_dates))"

definition non_adherence_cell ::
  "block_level \<Rightarrow> real \<Rightarrow> string list \<Rightarrow> real list \<Rightarrow> (string \<times> 'm session_scheme) list \<Rightarrow>
     py_error + ((string \<times> 'm session_scheme) list \<times> string list)" where
  "non_adherence_cell b adherence_percent remove coins data =
     (let dates = map fst data;
          k = num_blocks_to_remove b adherence_percent dates
      in if choice_raises (length dates) k then Inl ValueError
         else remove_loop (zip remove coins) (data, dates))"

section \<open>Statistical analysis of the glucose frame (Dexcom)\<close>

text \<open>
  The frame \<open>df\<close> always has the columns \<open>datetime\<close> and \<open>glucose_level\<close>; any other
  column is kept by name. A timestamp is a number of seconds (both sources of the frame
  give whole seconds).
\<close>

datatype column = StrCol "string list" | FloatCol "npfloat list" | BoolCol "bool list"

record glucose_frame =
  datetime :: "int list"
  glucose_level :: "npfloat list"
  other_columns :: "(string \<times> column) list"

definition nrows :: "glucose_frame \<Rightarrow> nat" where
  "nrows df = length (datetime df)"

text \<open>\<open>df[name] = values\<close>: an existing column is overwritten in place, a new one is appended.\<close>

definition set_column :: "string \<Rightarrow> column \<Rightarrow> glucose_frame \<Rightarrow> glucose_frame" where
  "set_column name c df = df\<lparr>other_columns := AList.update name c (other_columns df)\<rparr>"

definition column_names :: "glucose_frame \<Rightarrow> string list" where
  "column_names df = ''datetime'' # ''glucose_level'' # map fst (other_columns df)"

text \<open>
  \<^verbatim>\<open>
  dayStart = time(9, 00, 00)
  dayEnd = time(0, 00, 00)
  allTimes = pd.to_datetime(df.loc[:,'datetime']).dt.time
  if dayStart < dayEnd:
      mask = (allTimes >= dayStart) & (allTimes <= dayEnd)
  else:
      mask = (allTimes >= dayStart) | (allTimes <= dayEnd)
  df["Time of Day"] = mask
  df["Time of Day"] = df["Time of Day"].map({True: 'Day', False: 'Night'})
  \<close>
\<close>

definition dayStart :: int where
  "dayStart = 9 * 3600"

definition dayEnd :: int where
  "dayEnd = 0"

definition time_of :: "int \<Rightarrow> int" where
  "time_of t = t mod 86400"

definition day_mask :: "int list \<Rightarrow> bool list" where
  "day_mask ts =
     (let allTimes = map time_of ts
      in if dayStart < dayEnd
         then map (\<lambda>t. dayStart \<le> t \<and> t \<le> dayEnd) allTimes
         else map (\<lambda>t. dayStart \<le> t \<or> t \<le> dayEnd) allTimes)"

definition time_of_day_cell :: "glucose_frame \<Rightarrow> glucose_frame" where
  "time_of_day_cell df =
     (let mask = day_mask (datetime df);
          df1 = set_column ''Time of Day'' (BoolCol mask) df
      in set_column ''Time of Day'' (StrCol (map (\<lambda>b. if b then ''Day'' else ''Night'') mask)) df1)"

text \<open>
  \<^verbatim>\<open>
  rates_of_change = [(df.glucose_level.iloc[i+1] - df.glucose_level.iloc[i]) /
      ((df.datetime.iloc[i+1] - df.datetime.iloc[i]).seconds / 60)
      for i in range(df.glucose_level.shape[0] - 1)]
  df['Rates of change'] = rates_of_change + [0]
  \<close>
  \<open>.seconds\<close> is the seconds field of the difference, between 0 and 86399. A zero time
  step divides by zero: numpy warns and gives an infinity or NaN, both \<open>None\<close> here. On
  an empty frame the list \<open>[0]\<close> does not fit and the assignment raises ValueError,
  after the cell has already set \<open>Time of Day\<close>.
\<close>

definition rate :: "npfloat \<Rightarrow> npfloat \<Rightarrow> int \<Rightarrow> int \<Rightarrow> npfloat" where
  "rate g0 g1 t0 t1 =
     (case (g0, g1) of
        (Some a, Some b) \<Rightarrow>
          (let minutes = real_of_int ((t1 - t0) mod 86400) / 60
           in if minutes = 0 then None else Some ((b - a) / minutes))
      | _ \<Rightarrow> None)"

definition rates_of_change :: "glucose_frame \<Rightarrow> npfloat list" where
  "rates_of_change df =
     map (\<lambda>i. rate (glucose_level df ! i) (glucose_level df ! (i + 1))
                    (datetime df ! i) (datetime df ! (i + 1)))
         [0..<length (glucose_level df) - 1]"

definition rates_cell :: "glucose_frame \<Rightarrow> py_error option \<times> glucose_frame" where
  "rates_cell df =
     (let df1 = time_of_day_cell df;
          values = rates_of_change df1 @ [Some 0]
      in if length values \<noteq> nrows df1 then (Some ValueError, df1)
         else (None, set_column ''Rates of change'' (FloatCol values) df1))"

text \<open>
  The tests themselves read two groups of values and return numbers:
  \<^verbatim>\<open>
  stats.kruskal(df.loc[df["Time of Day"] == 'Day']['glucose_level'],
                df.loc[df["Time of Day"] == 'Night']['glucose_level'])
  \<close>
  The test of scipy is a parameter.
\<close>

definition group_values :: "string \<Rightarrow> glucose_frame \<Rightarrow> py_error + npfloat list" where
  "group_values label df =
     (case map_of (other_columns df) ''Time of Day'' of
        None \<Rightarrow> Inl KeyError
      | Some (StrCol tod) \<Rightarrow> Inr (map fst (filter (\<lambda>(g, t). t = label) (zip (glucose_level df) tod)))
      | Some _ \<Rightarrow> Inr [])"

definition kruskal_cell ::
  "(npfloat list \<Rightarrow> npfloat list \<Rightarrow> 'r) \<Rightarrow> glucose_frame \<Rightarrow> py_error + 'r" where
  "kruskal_cell kruskal df =
     (case group_values ''Day'' df of
        Inl e \<Rightarrow> Inl e
      | Inr day \<Rightarrow>
          (case group_values ''Night'' df of
             Inl e \<Rightarrow> Inl e
           | Inr night \<Rightarrow> Inr (kruskal day night)))"

text \<open>Sections 9.1 and 9.2, the cells that assign to \<open>df\<close>, one after the other.\<close>

definition stat_summary :: "glucose_frame \<Rightarrow> py_error option \<times> glucose_frame" where
  "stat_summary df = rates_cell (time_of_day_cell df)"

section \<open>Slices of one element\<close>

lemma take_one_drop: "lo < length xs \<Longrightarrow> take (Suc 0) (drop lo xs) = [xs ! lo]"
  by (simp add: take_Suc_conv_app_nth)

lemma slice_one_nonneg:
  assumes "0 \<le> a"
  shows "py_slice xs a (a + 1) = (if a < int (length xs) then [xs ! nat a] else [])"
proof (cases "a < int (length xs)")
  case True
  have lt: "nat a < length xs" using assms True by linarith
  have lo: "slice_bound (length xs) a = nat a"
    using assms True by (simp add: slice_bound_def)
  have "nat (a + 1) = Suc (nat a)" using assms by linarith
  then have hi: "slice_bound (length xs) (a + 1) = Suc (nat a)"
    using assms lt by (simp add: slice_bound_def min_def)
  show ?thesis
    using True lt by (simp add: py_slice_def lo hi take_one_drop)
next
  case False
  then have "slice_bound (length xs) a = length xs"
    using assms by (simp add: slice_bound_def)
  then show ?thesis
    using False by (simp add: py_slice_def)
qed

lemma slice_one_neg:
  assumes "a < 0"
  shows "py_slice xs a (a + 1) =
     (if a < -1 \<and> 0 \<le> int (length xs) + a then [xs ! nat (int (length xs) + a)] else [])"
proof (cases "a < -1 \<and> 0 \<le> int (length xs) + a")
  case True
  have lt: "nat (int (length xs) + a) < length xs" using assms True by linarith
  have lo: "slice_bound (length xs) a = nat (int (length xs) + a)"
    using assms True by (simp add: slice_bound_def)
  have "nat (int (length xs) + (a + 1)) = Suc (nat (int (length xs) + a))"
    using True by linarith
  then have hi: "slice_bound (length xs) (a + 1) = Suc (nat (int (length xs) + a))"
    using assms True by (simp add: slice_bound_def max_def)
  show ?thesis
    using True lt by (simp add: py_slice_def lo hi take_one_drop)
next
  case False
  then have "slice_bound (length xs) (a + 1) \<le> slice_bound (length xs) a"
    using assms by (auto simp: slice_bound_def max_def)
  then show ?thesis
    using False by (simp add: py_slice_def)
qed

lemma slice_one:
  "b = a + 1 \<Longrightarrow> py_slice xs a b =
     (if 0 \<le> a then (if a < int (length xs) then [xs ! nat a] else [])
      else if a < -1 \<and> 0 \<le> int (length xs) + a then [xs ! nat (int (length xs) + a)]
      else [])"
  using slice_one_nonneg [of a xs] slice_one_neg [of a xs] by simp

section \<open>The z-scores and the flagged rows\<close>

lemma length_zscore: "length (zscore a) = length a"
  by (simp add: zscore_def)

lemma length_abs_zscores: "length (abs_zscores a) = length a"
  by (simp add: abs_zscores_def length_zscore)

lemma abs_zscores_nth: "i < length a \<Longrightarrow> abs_zscores a ! i = np_abs (zscore a ! i)"
  by (simp add: abs_zscores_def length_zscore)

lemma flagged_indices_set:
  "set (flagged_indices z t) = {i. i < length z \<and> np_gt (z ! i) t}"
  by (auto simp: flagged_indices_def)

lemma hr_z_outlier_cell: "hr_z (outlier_cell t s) = abs_zscores (hr_bpm s)"
  by (simp add: outlier_cell_def Let_def)

text \<open>
  C8. In the neighbour-distance variant, the rows flagged by the detection cell are
  the rows whose absolute z-score of the raw values exceeds the threshold. The cell that
  computes the distances runs first, and nothing of what it stores is read: two notebook
  states with the same value column get the same flagged rows, whatever their distances.
\<close>

theorem flagged_rows_from_values_only:
  "flagged_rows t (outlier_cell t (distances_cell s)) =
     filter (\<lambda>i. np_gt (np_abs (zscore (hr_bpm s) ! i)) t) [0..<length (hr_bpm s)]
   \<and> (\<forall>s'. hr_bpm s' = hr_bpm s \<longrightarrow>
          flagged_rows t (outlier_cell t s') = flagged_rows t (outlier_cell t s))"
proof -
  have z: "hr_z (outlier_cell t (distances_cell s)) = abs_zscores (hr_bpm s)"
    by (simp add: hr_z_outlier_cell distances_cell_def)
  have "flagged_rows t (outlier_cell t (distances_cell s)) =
     filter (\<lambda>i. np_gt (np_abs (zscore (hr_bpm s) ! i)) t) [0..<length (hr_bpm s)]"
    unfolding flagged_rows_def z flagged_indices_def length_abs_zscores
    by (rule filter_cong) (simp_all add: abs_zscores_nth)
  moreover have "flagged_rows t (outlier_cell t s') = flagged_rows t (outlier_cell t s)"
    if "hr_bpm s' = hr_bpm s" for s'
    using that by (simp add: flagged_rows_def hr_z_outlier_cell)
  ultimately show ?thesis by blast
qed

section \<open>Evaluating the z-score test without square roots\<close>

text \<open>
  On a column without NaN, \<open>|z| > t\<close> (for \<open>t \<ge> 0\<close>) is a comparison of squares:
  with \<open>n\<close> values of sum \<open>s1\<close> and \<open>d = n * sum of squares - s1\<^sup>2\<close>, the value \<open>y\<close> is
  flagged iff \<open>d > 0\<close> and \<open>t\<^sup>2 * d < (n * y - s1)\<^sup>2\<close>.
\<close>

lemma those_map_Some: "those (map Some ys) = Some ys"
  by (induction ys) simp_all

lemma np_mean_Some:
  "np_mean (map Some ys) = (if ys = [] then None else Some (sum_list ys / real (length ys)))"
  by (simp add: np_mean_def those_map_Some)

lemma np_std_Some:
  "np_std (map Some ys) =
     (if ys = [] then None
      else Some (sqrt (sum_list (map (\<lambda>y. (y - sum_list ys / real (length ys))\<^sup>2) ys) / real (length ys))))"
  by (simp add: np_std_def those_map_Some Let_def)

lemma gt_abs_div_sqrt:
  fixes t d v :: real
  assumes "0 \<le> t" "0 \<le> v"
  shows "(sqrt v \<noteq> 0 \<and> t < \<bar>d\<bar> / sqrt v) \<longleftrightarrow> (0 < v \<and> t\<^sup>2 * v < d\<^sup>2)"
proof (cases "v = 0")
  case True
  then show ?thesis by simp
next
  case False
  then have v: "0 < v" using assms by simp
  then have s: "0 < sqrt v" by simp
  have "t < \<bar>d\<bar> / sqrt v \<longleftrightarrow> t * sqrt v < \<bar>d\<bar>"
    using s by (simp add: pos_less_divide_eq)
  also have "\<dots> \<longleftrightarrow> (t * sqrt v)\<^sup>2 < \<bar>d\<bar>\<^sup>2"
  proof
    assume "t * sqrt v < \<bar>d\<bar>"
    then show "(t * sqrt v)\<^sup>2 < \<bar>d\<bar>\<^sup>2"
      using assms s by (intro power_strict_mono) auto
  next
    assume "(t * sqrt v)\<^sup>2 < \<bar>d\<bar>\<^sup>2"
    then show "t * sqrt v < \<bar>d\<bar>"
      by (rule power2_less_imp_less) simp
  qed
  finally show ?thesis using v by (simp add: power_mult_distrib)
qed


lemma flagged_indices_Some:
  assumes "0 \<le> t"
  shows "flagged_indices (abs_zscores (map Some ys)) t =
     (let n = real (length ys);
          m = sum_list ys / n;
          v = sum_list (map (\<lambda>y. (y - m)\<^sup>2) ys) / n
      in filter (\<lambda>i. 0 < v \<and> t\<^sup>2 * v < (ys ! i - m)\<^sup>2) [0..<length ys])"
proof (cases "ys = []")
  case True
  then show ?thesis by (simp add: flagged_indices_def abs_zscores_def zscore_def)
next
  case False
  define m where "m = sum_list ys / real (length ys)"
  define v where "v = sum_list (map (\<lambda>y. (y - m)\<^sup>2) ys) / real (length ys)"
  have v0: "0 \<le> v"
    unfolding v_def by (intro divide_nonneg_nonneg sum_list_nonneg) auto
  have mn: "np_mean (map Some ys) = Some m"
    using False by (simp add: np_mean_Some m_def)
  have sd: "np_std (map Some ys) = Some (sqrt v)"
    using False by (simp add: np_std_Some m_def v_def)
  have z: "np_gt (abs_zscores (map Some ys) ! i) t \<longleftrightarrow> 0 < v \<and> t\<^sup>2 * v < (ys ! i - m)\<^sup>2"
    if "i < length ys" for i
  proof -
    have "abs_zscores (map Some ys) ! i =
        (if sqrt v = 0 then None else Some \<bar>(ys ! i - m) / sqrt v\<bar>)"
      using that by (simp add: abs_zscores_def zscore_def mn sd standardise_def np_abs_def)
    then have "np_gt (abs_zscores (map Some ys) ! i) t \<longleftrightarrow>
        sqrt v \<noteq> 0 \<and> t < \<bar>ys ! i - m\<bar> / sqrt v"
      using v0 by (simp add: np_gt_def)
    then show ?thesis
      using gt_abs_div_sqrt [OF assms v0, of "ys ! i - m"] by simp
  qed
  have "flagged_indices (abs_zscores (map Some ys)) t =
      filter (\<lambda>i. 0 < v \<and> t\<^sup>2 * v < (ys ! i - m)\<^sup>2) [0..<length ys]"
    unfolding flagged_indices_def
    by (rule filter_cong) (simp_all add: length_abs_zscores z)
  then show ?thesis by (simp add: Let_def m_def v_def)
qed

lemma sum_sq_dev:
  fixes m :: real
  shows "sum_list (map (\<lambda>y. (y - m)\<^sup>2) ys) =
     sum_list (map (\<lambda>y. y\<^sup>2) ys) - 2 * m * sum_list ys + real (length ys) * m\<^sup>2"
  by (induction ys) (simp_all add: power2_eq_square algebra_simps)

lemma filter_enumerate:
  "map fst (filter (\<lambda>(i, y). Q y) (enumerate k ys)) =
     map (\<lambda>i. i + k) (filter (\<lambda>i. Q (ys ! i)) [0..<length ys])"
proof (induction ys arbitrary: k)
  case Nil
  then show ?case by simp
next
  case (Cons y ys)
  have upt: "[0..<length (y # ys)] = 0 # map Suc [0..<length ys]"
    by (simp add: upt_conv_Cons map_Suc_upt del: upt_Suc)
  show ?case
    unfolding upt
    by (simp add: Cons.IH filter_map comp_def del: upt_Suc)
qed

lemma flagged_indices_eval:
  assumes "0 \<le> t"
  shows "flagged_indices (abs_zscores (map Some ys)) t =
     (let n = real (length ys);
          s1 = sum_list ys;
          d = n * sum_list (map (\<lambda>y. y\<^sup>2) ys) - s1\<^sup>2
      in map fst (filter (\<lambda>(i, y). 0 < d \<and> t\<^sup>2 * d < (n * y - s1)\<^sup>2) (enumerate 0 ys)))"
proof (cases "ys = []")
  case True
  then show ?thesis by (simp add: flagged_indices_def abs_zscores_def zscore_def)
next
  case False
  define n where "n = real (length ys)"
  define s1 where "s1 = sum_list ys"
  define d where "d = n * sum_list (map (\<lambda>y. y\<^sup>2) ys) - s1\<^sup>2"
  define m where "m = s1 / n"
  define v where "v = sum_list (map (\<lambda>y. (y - m)\<^sup>2) ys) / n"
  have n: "0 < n" using False by (simp add: n_def)
  have v: "v = d / n\<^sup>2"
    using n unfolding v_def sum_sq_dev d_def m_def n_def [symmetric] s1_def [symmetric]
    by (simp add: field_simps power2_eq_square)
  have dev: "(y - m)\<^sup>2 = (n * y - s1)\<^sup>2 / n\<^sup>2" for y
    using n unfolding m_def by (simp add: field_simps power2_eq_square)
  have iff: "(0 < v \<and> t\<^sup>2 * v < (y - m)\<^sup>2) \<longleftrightarrow> (0 < d \<and> t\<^sup>2 * d < (n * y - s1)\<^sup>2)" for y
  proof -
    have n2: "0 < n\<^sup>2" using n by simp
    have "t\<^sup>2 * v < (y - m)\<^sup>2 \<longleftrightarrow> t\<^sup>2 * d / n\<^sup>2 < (n * y - s1)\<^sup>2 / n\<^sup>2"
      by (simp add: v dev)
    also have "\<dots> \<longleftrightarrow> t\<^sup>2 * d < (n * y - s1)\<^sup>2"
      using n2 by (simp add: divide_less_cancel)
    finally show ?thesis using n2 by (simp add: v zero_less_divide_iff)
  qed
  have "flagged_indices (abs_zscores (map Some ys)) t =
      filter (\<lambda>i. 0 < v \<and> t\<^sup>2 * v < (ys ! i - m)\<^sup>2) [0..<length ys]"
    using flagged_indices_Some [OF assms, of ys]
    by (simp add: Let_def v_def m_def s1_def n_def)
  also have "\<dots> = filter (\<lambda>i. 0 < d \<and> t\<^sup>2 * d < (n * (ys ! i) - s1)\<^sup>2) [0..<length ys]"
    by (simp add: iff)
  also have "\<dots> = map fst (filter (\<lambda>(i, y). 0 < d \<and> t\<^sup>2 * d < (n * y - s1)\<^sup>2) (enumerate 0 ys))"
    using filter_enumerate [of "\<lambda>y. 0 < d \<and> t\<^sup>2 * d < (n * y - s1)\<^sup>2" 0 ys] by simp
  finally show ?thesis by (simp add: Let_def d_def s1_def n_def)
qed

section \<open>A column with one spike\<close>

text \<open>
  Eleven samples, the first one a spike: at threshold 3 exactly row 0 is flagged, whatever
  the list of distances holds (the distance cell computes seven distances for this column).
\<close>

lemma flagged_single_spike: "flagged_indices (abs_zscores (map Some [100,0,0,0,0,0,0,0,0,0,0])) 3 = [0]"
  using flagged_indices_eval [of 3 "[100,0,0,0,0,0,0,0,0,0,0]"]
  by (simp add: Let_def)

theorem flagged_rows_from_values_only_witness:
  "hr_bpm \<lparr>hr_bpm = map Some [100,0,0,0,0,0,0,0,0,0,0], hr_z = [], distances = map Some [3,1,4,1,5,9,2]\<rparr>
     = hr_bpm \<lparr>hr_bpm = map Some [100,0,0,0,0,0,0,0,0,0,0], hr_z = [], distances = []\<rparr>
   \<and> flagged_rows 3 (outlier_cell 3
        \<lparr>hr_bpm = map Some [100,0,0,0,0,0,0,0,0,0,0], hr_z = [], distances = map Some [3,1,4,1,5,9,2]\<rparr>) = [0]
   \<and> flagged_rows 3 (outlier_cell 3
        \<lparr>hr_bpm = map Some [100,0,0,0,0,0,0,0,0,0,0], hr_z = [], distances = []\<rparr>) = [0]
   \<and> flagged_rows 3 (outlier_cell 3 (distances_cell
        \<lparr>hr_bpm = map Some [100,0,0,0,0,0,0,0,0,0,0], hr_z = [], distances = []\<rparr>)) = [0]
   \<and> length (distances (distances_cell
        \<lparr>hr_bpm = map Some [100,0,0,0,0,0,0,0,0,0,0], hr_z = [], distances = []\<rparr>)) = 7"
proof -
  define s0 :: notebook where
    "s0 = \<lparr>hr_bpm = map Some [100,0,0,0,0,0,0,0,0,0,0], hr_z = [], distances = []\<rparr>"
  define s2 :: notebook where
    "s2 = \<lparr>hr_bpm = map Some [100,0,0,0,0,0,0,0,0,0,0], hr_z = [], distances = map Some [3,1,4,1,5,9,2]\<rparr>"
  have all: "\<forall>s'. hr_bpm s' = hr_bpm s0 \<longrightarrow>
      flagged_rows 3 (outlier_cell 3 s') = flagged_rows 3 (outlier_cell 3 s0)"
    using flagged_rows_from_values_only [of 3 s0] by (rule conjunct2)
  have base: "flagged_rows 3 (outlier_cell 3 s0) = [0]"
    unfolding flagged_rows_def hr_z_outlier_cell s0_def using flagged_single_spike by simp
  have eq2: "hr_bpm s2 = hr_bpm s0" by (simp add: s0_def s2_def)
  have r2: "flagged_rows 3 (outlier_cell 3 s2) = [0]"
    using all eq2 base by metis
  have eqd: "hr_bpm (distances_cell s0) = hr_bpm s0" by (simp add: distances_cell_def)
  have rd: "flagged_rows 3 (outlier_cell 3 (distances_cell s0)) = [0]"
    using all eqd base by metis
  have len: "length (distances (distances_cell s0)) = 7"
    by (simp add: distances_cell_def distances_of_def s0_def py_slice_to_def py_slice_from_def
        py_slice_def slice_bound_def)
  show ?thesis
    using eq2 r2 base rd len unfolding s0_def s2_def by blast
qed

section \<open>The Garmin replacement loop\<close>

lemma garmin_window_eq:
  assumes "idx < length col"
  shows "garmin_window col idx = map ((!) col) [idx - 5..<min (idx + 5) (length col)]"
proof -
  have lo: "slice_bound (length col) (max 0 (int idx - 5)) = idx - 5"
    using assms by (auto simp: slice_bound_def max_def min_def)
  have hi: "slice_bound (length col) (min (int idx + 5) (int (length col))) = min (idx + 5) (length col)"
    by (auto simp: slice_bound_def min_def)
  have "take (hi - lo) (drop lo col) = map ((!) col) [lo..<hi]" if "hi \<le> length col" for lo hi
  proof (rule nth_equalityI)
    show "length (take (hi - lo) (drop lo col)) = length (map ((!) col) [lo..<hi])"
      using that by simp
  next
    fix i assume "i < length (take (hi - lo) (drop lo col))"
    then have i: "i < hi - lo" by simp
    then have "lo + i < hi" by simp
    then show "take (hi - lo) (drop lo col) ! i = map ((!) col) [lo..<hi] ! i"
      using that i by simp
  qed
  then show ?thesis
    by (simp add: garmin_window_def py_slice_def lo hi)
qed

lemma garmin_window_contains: "idx < length col \<Longrightarrow> idx \<in> set [idx - 5..<min (idx + 5) (length col)]"
  by auto

lemma garmin_step_length: "length (hr_col (garmin_step store idx s)) = length (hr_col s)"
  by (simp add: garmin_step_def Let_def)

lemma garmin_loop_length: "length (hr_col (garmin_loop store idxs s)) = length (hr_col s)"
  unfolding garmin_loop_def
  by (induction idxs arbitrary: s) (simp_all add: garmin_step_length)

lemma garmin_loop_untouched:
  "i \<notin> set idxs \<Longrightarrow> hr_col (garmin_loop store idxs s) ! i = hr_col s ! i"
  unfolding garmin_loop_def
  by (induction idxs arbitrary: s) (auto simp: garmin_step_def Let_def)

lemma garmin_loop_append:
  "garmin_loop store (xs @ ys) s = garmin_loop store ys (garmin_loop store xs s)"
  by (simp add: garmin_loop_def)

lemma garmin_loop_new_data:
  "new_data (garmin_loop store idxs s) =
     new_data s @ map (\<lambda>k. np_mean (garmin_window (hr_col (garmin_loop store (take k idxs) s)) (idxs ! k)))
                      [0..<length idxs]"
proof (induction idxs rule: rev_induct)
  case Nil
  then show ?case by (simp add: garmin_loop_def)
next
  case (snoc i idxs)
  have step: "new_data (garmin_loop store (idxs @ [i]) s) =
      new_data (garmin_loop store idxs s) @
        [np_mean (garmin_window (hr_col (garmin_loop store idxs s)) i)]"
    by (simp add: garmin_loop_def garmin_step_def Let_def)
  have "map (\<lambda>k. np_mean (garmin_window (hr_col (garmin_loop store (take k (idxs @ [i])) s)) ((idxs @ [i]) ! k)))
          [0..<length idxs] =
        map (\<lambda>k. np_mean (garmin_window (hr_col (garmin_loop store (take k idxs) s)) (idxs ! k)))
          [0..<length idxs]"
    by (rule map_cong) (simp_all add: nth_append)
  then show ?case
    by (simp add: step snoc.IH)
qed

lemma outlier_indices_distinct: "distinct (outlier_indices col t)"
  by (simp add: outlier_indices_def flagged_indices_def)

lemma outlier_indices_range: "i \<in> set (outlier_indices col t) \<Longrightarrow> i < length col"
  by (simp add: outlier_indices_def flagged_indices_set length_abs_zscores)


text \<open>
  C10. In the Garmin variant, take the \<open>k\<close>-th flagged index \<open>idx\<close>. The replacement value
  appended to \<open>new_data\<close> is the mean of the array, as it is when the loop reaches \<open>idx\<close>,
  over the positions \<open>max(0, idx-5) .. min(idx+5, len)-1\<close>. This window lies inside the
  array and contains \<open>idx\<close>, so it is not empty; and the array still holds the original
  outlier value at \<open>idx\<close> at that moment, so this value is part of its own replacement
  mean. What the array then stores at \<open>idx\<close> is that mean, converted to the element type.
\<close>

theorem garmin_replacement_window:
  assumes "k < length (outlier_indices col t)"
  shows "(let idxs = outlier_indices col t;
              idx = idxs ! k;
              before = garmin_loop store (take k idxs) \<lparr>hr_col = col, old_data = [], new_data = []\<rparr>;
              after = garmin_clean store col t;
              window = [idx - 5..<min (idx + 5) (length col)]
          in idx < length col
           \<and> new_data after ! k = np_mean (garmin_window (hr_col before) idx)
           \<and> garmin_window (hr_col before) idx = map ((!) (hr_col before)) window
           \<and> idx \<in> set window
           \<and> hr_col before ! idx = col ! idx
           \<and> hr_col after ! idx = map_option store (new_data after ! k))"
proof -
  define idxs where "idxs = outlier_indices col t"
  define idx where "idx = idxs ! k"
  define init where "init = \<lparr>hr_col = col, old_data = [], new_data = []\<rparr>"
  define before where "before = garmin_loop store (take k idxs) init"
  define after where "after = garmin_clean store col t"
  have k: "k < length idxs" using assms by (simp add: idxs_def)
  have dist: "distinct idxs" by (simp add: idxs_def outlier_indices_distinct)
  have mem: "idx \<in> set idxs" using k by (simp add: idx_def)
  have range: "idx < length col"
    using mem outlier_indices_range by (simp add: idxs_def)
  have len_before: "length (hr_col before) = length col"
    by (simp add: before_def garmin_loop_length init_def)
  have after_eq: "after = garmin_loop store idxs init"
    by (simp add: after_def garmin_clean_def idxs_def init_def)
  have nd: "new_data after ! k = np_mean (garmin_window (hr_col before) idx)"
    using k by (simp add: after_eq garmin_loop_new_data init_def before_def idx_def)
  have win: "garmin_window (hr_col before) idx = map ((!) (hr_col before)) [idx - 5..<min (idx + 5) (length col)]"
    using garmin_window_eq [of idx "hr_col before"] range by (simp add: len_before)
  have not_before: "idx \<notin> set (take k idxs)"
    using dist k unfolding idx_def
    by (metis id_take_nth_drop distinct_append disjoint_iff list.set_intros(1))
  have own: "hr_col before ! idx = col ! idx"
    using garmin_loop_untouched [OF not_before, of store init]
    by (simp add: before_def init_def)
  have not_after: "idx \<notin> set (drop (Suc k) idxs)"
    using dist k unfolding idx_def
    by (metis distinct_append distinct.simps(2) id_take_nth_drop)
  have split: "idxs = take k idxs @ [idx] @ drop (Suc k) idxs"
    using k by (simp add: idx_def id_take_nth_drop)
  have "after = garmin_loop store (drop (Suc k) idxs) (garmin_step store idx before)"
    unfolding after_eq before_def
    by (subst split) (simp add: garmin_loop_def)
  then have "hr_col after ! idx = hr_col (garmin_step store idx before) ! idx"
    using garmin_loop_untouched [OF not_after] by simp
  also have "\<dots> = map_option store (np_mean (garmin_window (hr_col before) idx))"
    using range by (simp add: garmin_step_def Let_def len_before)
  finally have stored: "hr_col after ! idx = map_option store (new_data after ! k)"
    by (simp add: nd)
  show ?thesis
    using range nd win garmin_window_contains [OF range] own stored
    unfolding Let_def idxs_def [symmetric] idx_def [symmetric] init_def [symmetric]
      before_def [symmetric] after_def [symmetric]
    by simp
qed


text \<open>
  A spike in the first row of twelve: the window is clipped to rows \<open>0 .. 4\<close>, the mean
  \<open>1011/5\<close> includes the spike itself, and an integer array stores 202.
\<close>

lemma outlier_indices_spike_first:
  "outlier_indices (map Some [1000,1,2,3,5,5,6,7,8,40,80,11]) 3 = [0]"
  unfolding outlier_indices_def
  using flagged_indices_eval [of 3 "[1000,1,2,3,5,5,6,7,8,40,80,11]"]
  by (simp add: Let_def)

theorem garmin_replacement_window_witness:
  "0 < length (outlier_indices (map Some [1000,1,2,3,5,5,6,7,8,40,80,11]) 3)
   \<and> outlier_indices (map Some [1000,1,2,3,5,5,6,7,8,40,80,11]) 3 = [0]
   \<and> garmin_window (map Some [1000,1,2,3,5,5,6,7,8,40,80,11 :: real]) 0 = map Some [1000,1,2,3,5]
   \<and> new_data (garmin_clean (\<lambda>x. real_of_int \<lfloor>x\<rfloor>) (map Some [1000,1,2,3,5,5,6,7,8,40,80,11]) 3) ! 0
        = Some (1011 / 5)
   \<and> hr_col (garmin_clean (\<lambda>x. real_of_int \<lfloor>x\<rfloor>) (map Some [1000,1,2,3,5,5,6,7,8,40,80,11]) 3) ! 0
        = Some 202"
proof -
  define col :: "npfloat list" where "col = map Some [1000,1,2,3,5,5,6,7,8,40,80,11]"
  define store :: "real \<Rightarrow> real" where "store = (\<lambda>x. real_of_int \<lfloor>x\<rfloor>)"
  have idxs: "outlier_indices col 3 = [0]"
    unfolding col_def by (rule outlier_indices_spike_first)
  then have k: "0 < length (outlier_indices col 3)" by simp
  have win: "garmin_window col 0 = map Some [1000,1,2,3,5]"
    using garmin_window_eq [of 0 col] by (simp add: col_def upt_rec)
  have mean: "np_mean (map Some [1000,1,2,3,5]) = Some (1011 / 5)"
    using np_mean_Some [of "[1000,1,2,3,5]"] by simp
  have inst: "new_data (garmin_clean store col 3) ! 0 =
        np_mean (garmin_window (hr_col \<lparr>hr_col = col, old_data = [], new_data = []\<rparr>) 0)
      \<and> hr_col (garmin_clean store col 3) ! 0 =
        map_option store (new_data (garmin_clean store col 3) ! 0)"
    using garmin_replacement_window [OF k, of store]
    by (simp add: Let_def idxs garmin_loop_def)
  have nd: "new_data (garmin_clean store col 3) ! 0 = Some (1011 / 5)"
    using inst win mean by simp
  have "store (1011 / 5) = 202"
    unfolding store_def by simp linarith?
  then have st: "hr_col (garmin_clean store col 3) ! 0 = Some 202"
    using inst nd by simp
  show ?thesis
    using k idxs win nd st unfolding col_def store_def by blast
qed

section \<open>Non-adherence simulation: what is kept\<close>

lemma adherence_result:
  "\<not> choice_raises (num_blocks b data) (num_blocks_to_keep b p data) \<Longrightarrow>
   AdherenceSimulator b p idxes data =
     Inr (map ((!) data) (filter (\<lambda>i. i \<in> set idxes) [0..<length data]))"
proof -
  have "concat (map (\<lambda>i. if i \<in> set idxes then map ((!) data) [i..<i + 1] else []) xs) =
      map ((!) data) (filter (\<lambda>i. i \<in> set idxes) xs)" for xs
    by (induction xs) simp_all
  then show "\<not> choice_raises (num_blocks b data) (num_blocks_to_keep b p data) \<Longrightarrow> ?thesis"
    by (simp add: AdherenceSimulator_def)
qed

lemma adherence_error:
  "choice_raises (num_blocks b data) (num_blocks_to_keep b p data) \<Longrightarrow>
   AdherenceSimulator b p idxes data = Inl ValueError"
  by (simp add: AdherenceSimulator_def)

lemma length_filter_drawn:
  assumes "distinct idxes" "\<forall>i \<in> set idxes. i < n"
  shows "length (filter (\<lambda>i. i \<in> set idxes) [0..<n]) = length idxes"
proof -
  have "length (filter (\<lambda>i. i \<in> set idxes) [0..<n]) = card ({i. i \<in> set idxes} \<inter> set [0..<n])"
    by (rule distinct_length_filter) simp
  also have "{i. i \<in> set idxes} \<inter> set [0..<n] = set idxes"
    using assms(2) by auto
  finally show ?thesis using assms(1) by (simp add: distinct_card)
qed

lemma num_blocks_le: "num_blocks b data \<le> length data"
  by (cases b) (simp_all add: num_blocks_def block_length_def)

lemma py_int_unit:
  assumes "0 \<le> p" "p \<le> 1"
  shows "0 \<le> py_int (p * real n)" "py_int (p * real n) \<le> int n"
proof -
  have nn: "0 \<le> p * real n" using assms by simp
  then show "0 \<le> py_int (p * real n)" by (simp add: py_int_def)
  have "p * real n \<le> real n" using assms by (simp add: mult_left_le_one_le)
  then have "\<lfloor>p * real n\<rfloor> \<le> int n" by linarith
  then show "py_int (p * real n) \<le> int n" using nn by (simp add: py_int_def)
qed

lemma no_raise_unit:
  "0 \<le> p \<Longrightarrow> p \<le> 1 \<Longrightarrow> \<not> choice_raises (num_blocks b data) (num_blocks_to_keep b p data)"
  using py_int_unit [of p "num_blocks b data"]
  by (simp add: choice_raises_def num_blocks_to_keep_def)

lemma drawn_all:
  assumes "random_choice n (int n) idxes"
  shows "set idxes = {0..<n}"
proof -
  have d: "distinct idxes" and r: "set idxes \<subseteq> {0..<n}" and l: "length idxes = n"
    using assms by (auto simp: random_choice_def)
  have "card (set idxes) = card {0..<n}" using d l by (simp add: distinct_card)
  then show ?thesis using r by (simp add: card_subset_eq)
qed



lemma adherence_le:
  assumes "0 \<le> p" "p \<le> 1"
  shows "\<exists>result. AdherenceSimulator b p idxes data = Inr result \<and> length result \<le> length data"
proof -
  have "\<not> choice_raises (num_blocks b data) (num_blocks_to_keep b p data)"
    using assms by (rule no_raise_unit)
  then have "AdherenceSimulator b p idxes data =
      Inr (map ((!) data) (filter (\<lambda>i. i \<in> set idxes) [0..<length data]))"
    by (rule adherence_result)
  moreover have "length (filter (\<lambda>i. i \<in> set idxes) [0..<length data]) \<le> length data"
    using length_filter_le [of "\<lambda>i. i \<in> set idxes" "[0..<length data]"] by simp
  ultimately show ?thesis by simp
qed

lemma adherence_none:
  assumes "random_choice (num_blocks b data) (num_blocks_to_keep b 0 data) idxes"
  shows "AdherenceSimulator b 0 idxes data = Inr []"
proof -
  from assms have "idxes = []"
    by (simp add: random_choice_def num_blocks_to_keep_def py_int_def)
  moreover have "\<not> choice_raises (num_blocks b data) (num_blocks_to_keep b 0 data)"
    by (simp add: no_raise_unit)
  ultimately show ?thesis
    by (simp add: adherence_result)
qed

lemma adherence_all_days:
  assumes rc: "random_choice (num_blocks Day data) (num_blocks_to_keep Day 1 data) idxes"
  shows "AdherenceSimulator Day 1 idxes data = Inr data"
proof -
  have nb: "num_blocks Day data = length data"
    by (simp add: num_blocks_def block_length_def)
  have keep: "num_blocks_to_keep Day 1 data = int (length data)"
    by (simp add: num_blocks_to_keep_def nb py_int_def)
  have "set idxes = {0..<length data}"
    using rc drawn_all by (simp add: nb keep)
  then have "filter (\<lambda>i. i \<in> set idxes) [0..<length data] = [0..<length data]"
    by simp
  moreover have "\<not> choice_raises (num_blocks Day data) (num_blocks_to_keep Day 1 data)"
    by (simp add: no_raise_unit)
  ultimately show ?thesis
    by (simp add: adherence_result map_nth)
qed

lemma map_fst_delete_all: "map fst (AList.delete k al) = removeAll k (map fst al)"
  by (induction al) (auto simp: AList.delete_eq)

lemma map_fst_delete:
  "distinct (map fst al) \<Longrightarrow> map fst (AList.delete k al) = remove1 k (map fst al)"
  by (simp add: map_fst_delete_all distinct_remove1_removeAll)

lemma map_fst_map_entry: "map fst (AList.map_entry k f al) = map fst al"
  by (induction al) auto

lemma length_delete_le: "length (AList.delete k al) \<le> length al"
  by (simp add: AList.delete_eq)

lemma remove_loop_ok:
  "distinct (map fst kc) \<Longrightarrow> set (map fst kc) \<subseteq> set (map fst al) \<Longrightarrow> distinct (map fst al) \<Longrightarrow>
     \<exists>al'. remove_loop kc (al, map fst al) = Inr (al', map fst al') \<and> length al' \<le> length al"
proof (induction kc arbitrary: al)
  case Nil
  then show ?case by simp
next
  case (Cons kc1 rest)
  obtain key coin where kc1: "kc1 = (key, coin)" by (cases kc1)
  from Cons.prems kc1 have key_in: "key \<in> set (map fst al)" and key_notin: "key \<notin> set (map fst rest)"
    and drest: "distinct (map fst rest)" and sub: "set (map fst rest) \<subseteq> set (map fst al)"
    by auto
  from key_in have present: "map_of al key \<noteq> None"
    by (simp add: map_of_eq_None_iff)
  show ?case
  proof (cases "coin < 8 / 10")
    case True
    let ?al = "AList.delete key al"
    have keys: "map fst ?al = remove1 key (map fst al)"
      using Cons.prems(3) by (rule map_fst_delete)
    have "set (map fst rest) \<subseteq> set (map fst ?al)"
      using sub key_notin Cons.prems(3) unfolding keys by auto
    moreover have "distinct (map fst ?al)"
      unfolding keys using Cons.prems(3) by simp
    ultimately obtain al' where
      "remove_loop rest (?al, map fst ?al) = Inr (al', map fst al')" "length al' \<le> length ?al"
      using Cons.IH [OF drest] by blast
    then show ?thesis
      using True present key_in kc1 keys length_delete_le [of key al] by auto
  next
    case False
    let ?al = "AList.map_entry key (\<lambda>s. s\<lparr>heart_rates := heart_rates s @ replicate 100 0\<rparr>) al"
    have keys: "map fst ?al = map fst al"
      by (rule map_fst_map_entry)
    obtain al' where
      "remove_loop rest (?al, map fst ?al) = Inr (al', map fst al')" "length al' \<le> length ?al"
      using Cons.IH [OF drest, of ?al] sub Cons.prems(3) unfolding keys by blast
    moreover have "length ?al = length al"
      using arg_cong [OF keys, of length] by simp
    ultimately show ?thesis
      using False present kc1 keys by auto
  qed
qed

lemma remove_unit:
  assumes "0 \<le> p" "p \<le> 1"
  shows "\<not> choice_raises (length dates) (num_blocks_to_remove b p dates)"
proof -
  let ?n = "length dates div block_length b"
  have "0 \<le> py_int ((1 - p) * real ?n)" "py_int ((1 - p) * real ?n) \<le> int ?n"
    using py_int_unit [of "1 - p" ?n] assms by simp_all
  moreover have "int ?n \<le> int (length dates)" by simp
  ultimately show ?thesis
    unfolding choice_raises_def num_blocks_to_remove_def by linarith
qed


lemma non_adherence_le:
  assumes "distinct (map fst sessions)" "0 \<le> p" "p \<le> 1"
    and "removal_draw (map fst sessions) (num_blocks_to_remove b p (map fst sessions)) remove coins"
  shows "\<exists>adhered_data. non_adherence_cell b p remove coins sessions =
            Inr (adhered_data, map fst adhered_data) \<and> length adhered_data \<le> length sessions"
proof -
  from assms(4) have "map fst (zip remove coins) = remove" "distinct remove"
    "set remove \<subseteq> set (map fst sessions)"
    by (simp_all add: removal_draw_def)
  then have "\<exists>al'. remove_loop (zip remove coins) (sessions, map fst sessions) = Inr (al', map fst al')
       \<and> length al' \<le> length sessions"
    using remove_loop_ok [of "zip remove coins" sessions] assms(1) by simp
  moreover have "\<not> choice_raises (length (map fst sessions)) (num_blocks_to_remove b p (map fst sessions))"
    using assms(2,3) by (rule remove_unit)
  ultimately show ?thesis
    by (simp add: non_adherence_cell_def Let_def)
qed

lemma non_adherence_full:
  assumes "removal_draw (map fst sessions) (num_blocks_to_remove b 1 (map fst sessions)) remove coins"
  shows "non_adherence_cell b 1 remove coins sessions = Inr (sessions, map fst sessions)"
proof -
  have k: "num_blocks_to_remove b 1 (map fst sessions) = 0"
    by (simp add: num_blocks_to_remove_def py_int_def)
  from assms have "remove = []"
    unfolding k by (simp add: removal_draw_def)
  then show ?thesis
    using k by (simp add: non_adherence_cell_def Let_def choice_raises_def)
qed


text \<open>
  C4 (as amended). For every keep fraction in \<open>[0, 1]\<close> and every possible draw,
  \<open>AdherenceSimulator\<close> returns a list no longer than its input; at keep fraction 0 it
  returns the empty list; at keep fraction 1 with day-sized blocks it returns its input.
  The cell of the Polar notebooks, for every keep fraction in \<open>[0, 1]\<close> and every
  possible draw, ends without an error with no more sessions than it was given (the
  dates being the keys of the sessions left), and at keep fraction 1 it leaves the
  sessions as they were, for both block sizes.
\<close>

theorem adherence_length_bounds:
  "(\<forall>p idxes. 0 \<le> p \<and> p \<le> 1 \<and>
        random_choice (num_blocks b data) (num_blocks_to_keep b p data) idxes \<longrightarrow>
        (\<exists>result. AdherenceSimulator b p idxes data = Inr result \<and> length result \<le> length data))
   \<and> (\<forall>idxes. random_choice (num_blocks b data) (num_blocks_to_keep b 0 data) idxes \<longrightarrow>
        AdherenceSimulator b 0 idxes data = Inr [])
   \<and> (\<forall>idxes. random_choice (num_blocks Day data) (num_blocks_to_keep Day 1 data) idxes \<longrightarrow>
        AdherenceSimulator Day 1 idxes data = Inr data)
   \<and> (\<forall>p remove coins. distinct (map fst sessions) \<and> 0 \<le> p \<and> p \<le> 1 \<and>
        removal_draw (map fst sessions) (num_blocks_to_remove b p (map fst sessions)) remove coins \<longrightarrow>
        (\<exists>adhered_data. non_adherence_cell b p remove coins sessions =
            Inr (adhered_data, map fst adhered_data) \<and> length adhered_data \<le> length sessions))
   \<and> (\<forall>remove coins.
        removal_draw (map fst sessions) (num_blocks_to_remove b 1 (map fst sessions)) remove coins \<longrightarrow>
        non_adherence_cell b 1 remove coins sessions = Inr (sessions, map fst sessions))"
proof (intro conjI allI impI)
  fix p :: real and idxes
  assume "0 \<le> p \<and> p \<le> 1 \<and> random_choice (num_blocks b data) (num_blocks_to_keep b p data) idxes"
  then show "\<exists>result. AdherenceSimulator b p idxes data = Inr result \<and> length result \<le> length data"
    by (simp add: adherence_le)
next
  fix idxes
  assume "random_choice (num_blocks b data) (num_blocks_to_keep b 0 data) idxes"
  then show "AdherenceSimulator b 0 idxes data = Inr []"
    by (rule adherence_none)
next
  fix idxes
  assume "random_choice (num_blocks Day data) (num_blocks_to_keep Day 1 data) idxes"
  then show "AdherenceSimulator Day 1 idxes data = Inr data"
    by (rule adherence_all_days)
next
  fix p :: real and remove coins
  assume "distinct (map fst sessions) \<and> 0 \<le> p \<and> p \<le> 1 \<and>
        removal_draw (map fst sessions) (num_blocks_to_remove b p (map fst sessions)) remove coins"
  then show "\<exists>adhered_data. non_adherence_cell b p remove coins sessions =
            Inr (adhered_data, map fst adhered_data) \<and> length adhered_data \<le> length sessions"
    using non_adherence_le [of sessions p b remove coins] by blast
next
  fix remove coins
  assume "removal_draw (map fst sessions) (num_blocks_to_remove b 1 (map fst sessions)) remove coins"
  then show "non_adherence_cell b 1 remove coins sessions = Inr (sessions, map fst sessions)"
    by (rule non_adherence_full)
qed

text \<open>
  The theorem at a series of 16 days (week blocks, keep fraction 1/2), at a series of
  4 days (keep fractions 0 and 1), and at four sessions of which two are drawn, the
  first dropped and the second padded with zeros.
\<close>

theorem adherence_length_bounds_witness:
  "random_choice (num_blocks Week [10,11,12,13,14,15,16,17,18,19,20,21,22,23,24,25::nat])
       (num_blocks_to_keep Week (1/2) [10,11,12,13,14,15,16,17,18,19,20,21,22,23,24,25::nat]) [1]
   \<and> (\<exists>result. AdherenceSimulator Week (1/2) [1] [10,11,12,13,14,15,16,17,18,19,20,21,22,23,24,25::nat] = Inr result
         \<and> length result \<le> length [10,11,12,13,14,15,16,17,18,19,20,21,22,23,24,25::nat])
   \<and> random_choice (num_blocks Day [10,11,12,13::nat]) (num_blocks_to_keep Day 0 [10,11,12,13::nat]) []
   \<and> AdherenceSimulator Day 0 [] [10,11,12,13::nat] = Inr []
   \<and> random_choice (num_blocks Day [10,11,12,13::nat]) (num_blocks_to_keep Day 1 [10,11,12,13::nat]) [2,0,3,1]
   \<and> AdherenceSimulator Day 1 [2,0,3,1] [10,11,12,13::nat] = Inr [10,11,12,13]
   \<and> removal_draw [''03-01'', ''03-02'', ''03-03'', ''03-04'']
        (num_blocks_to_remove Day (1/2) [''03-01'', ''03-02'', ''03-03'', ''03-04''])
        [''03-03'', ''03-01''] [1/2, 9/10]
   \<and> (\<exists>adhered_data.
         non_adherence_cell Day (1/2) [''03-03'', ''03-01''] [1/2, 9/10]
           [(''03-01'', \<lparr>heart_rates = [60, 61]\<rparr>), (''03-02'', \<lparr>heart_rates = [70]\<rparr>),
            (''03-03'', \<lparr>heart_rates = [80, 81]\<rparr>), (''03-04'', \<lparr>heart_rates = [90]\<rparr>)]
           = Inr (adhered_data, map fst adhered_data)
         \<and> length adhered_data \<le> length [''03-01'', ''03-02'', ''03-03'', ''03-04''])
   \<and> removal_draw [''03-01'', ''03-02'', ''03-03'', ''03-04'']
        (num_blocks_to_remove Day 1 [''03-01'', ''03-02'', ''03-03'', ''03-04'']) [] []
   \<and> non_adherence_cell Day 1 [] []
           [(''03-01'', \<lparr>heart_rates = [60, 61]\<rparr>), (''03-02'', \<lparr>heart_rates = [70]\<rparr>),
            (''03-03'', \<lparr>heart_rates = [80, 81]\<rparr>), (''03-04'', \<lparr>heart_rates = [90]\<rparr>)]
       = Inr ([(''03-01'', \<lparr>heart_rates = [60, 61]\<rparr>), (''03-02'', \<lparr>heart_rates = [70]\<rparr>),
               (''03-03'', \<lparr>heart_rates = [80, 81]\<rparr>), (''03-04'', \<lparr>heart_rates = [90]\<rparr>)],
              [''03-01'', ''03-02'', ''03-03'', ''03-04''])"
proof -
  let ?w = "[10,11,12,13,14,15,16,17,18,19,20,21,22,23,24,25::nat]"
  let ?d = "[10,11,12,13::nat]"
  let ?s = "[(''03-01'', \<lparr>heart_rates = [60, 61]\<rparr>), (''03-02'', \<lparr>heart_rates = [70]\<rparr>),
            (''03-03'', \<lparr>heart_rates = [80, 81]\<rparr>), (''03-04'', \<lparr>heart_rates = [90]\<rparr>)]"
  let ?k = "[''03-01'', ''03-02'', ''03-03'', ''03-04'']"
  have keys: "map fst ?s = ?k" by simp
  have nw: "num_blocks Week ?w = 2" and kw: "num_blocks_to_keep Week (1/2) ?w = 1"
    by (simp_all add: num_blocks_def num_blocks_to_keep_def block_length_def py_int_def)
  have nd: "num_blocks Day ?d = 4" and k0: "num_blocks_to_keep Day 0 ?d = 0"
    and k1: "num_blocks_to_keep Day 1 ?d = 4"
    by (simp_all add: num_blocks_def num_blocks_to_keep_def block_length_def py_int_def)
  have rh: "num_blocks_to_remove Day (1/2) ?k = 2" and r1: "num_blocks_to_remove Day 1 ?k = 0"
    by (simp_all add: num_blocks_to_remove_def block_length_def py_int_def)
  have c1: "random_choice (num_blocks Week ?w) (num_blocks_to_keep Week (1/2) ?w) [1]"
    unfolding nw kw by (simp add: random_choice_def)
  have c2: "random_choice (num_blocks Day ?d) (num_blocks_to_keep Day 0 ?d) []"
    unfolding nd k0 by (simp add: random_choice_def)
  have c3: "random_choice (num_blocks Day ?d) (num_blocks_to_keep Day 1 ?d) [2,0,3,1]"
    unfolding nd k1 by (simp add: random_choice_def)
  have c4: "removal_draw ?k (num_blocks_to_remove Day (1/2) ?k) [''03-03'', ''03-01''] [1/2, 9/10]"
    unfolding rh by (simp add: removal_draw_def)
  have c5: "removal_draw ?k (num_blocks_to_remove Day 1 ?k) [] []"
    unfolding r1 by (simp add: removal_draw_def)
  have half: "(0::real) \<le> 1/2 \<and> (1/2::real) \<le> 1 \<and>
      random_choice (num_blocks Week ?w) (num_blocks_to_keep Week (1/2) ?w) [1]"
    using c1 by simp
  have half': "distinct (map fst ?s) \<and> (0::real) \<le> 1/2 \<and> (1/2::real) \<le> 1 \<and>
      removal_draw (map fst ?s) (num_blocks_to_remove Day (1/2) (map fst ?s)) [''03-03'', ''03-01''] [1/2, 9/10]"
    unfolding keys using c4 by simp
  have c5': "removal_draw (map fst ?s) (num_blocks_to_remove Day 1 (map fst ?s)) [] []"
    unfolding keys by (rule c5)
  have a: "\<exists>result. AdherenceSimulator Week (1/2) [1] ?w = Inr result \<and> length result \<le> length ?w"
    using adherence_length_bounds [of Week ?w ?s] half by blast
  have b: "AdherenceSimulator Day 0 [] ?d = Inr []"
    using adherence_length_bounds [of Day ?d ?s] c2 by blast
  have c: "AdherenceSimulator Day 1 [2,0,3,1] ?d = Inr ?d"
    using adherence_length_bounds [of Day ?d ?s] c3 by blast
  have d: "\<exists>adhered_data. non_adherence_cell Day (1/2) [''03-03'', ''03-01''] [1/2, 9/10] ?s
              = Inr (adhered_data, map fst adhered_data) \<and> length adhered_data \<le> length ?s"
    using adherence_length_bounds [of Day ?d ?s] half' by blast
  then have d': "\<exists>adhered_data. non_adherence_cell Day (1/2) [''03-03'', ''03-01''] [1/2, 9/10] ?s
              = Inr (adhered_data, map fst adhered_data) \<and> length adhered_data \<le> length ?k"
    by simp
  have e: "non_adherence_cell Day 1 [] [] ?s = Inr (?s, map fst ?s)"
    using adherence_length_bounds [of Day ?d ?s] c5' by blast
  then have e': "non_adherence_cell Day 1 [] [] ?s = Inr (?s, ?k)"
    unfolding keys .
  from c1 a c2 b c3 c c4 d' c5 e' show ?thesis by blast
qed


text \<open>
  At keep fraction 1 with week-sized blocks a series of 8 days has one block, the draw
  is \<open>[0]\<close>, and the function returns the single point \<open>data[0]\<close>. At keep fraction 0
  with week-sized blocks the Polar cell removes one date of seven.
\<close>

theorem adherence_full_week_loses_points:
  "random_choice (num_blocks Week [10,11,12,13,14,15,16,17::nat])
       (num_blocks_to_keep Week 1 [10,11,12,13,14,15,16,17::nat]) [0]
   \<and> AdherenceSimulator Week 1 [0] [10,11,12,13,14,15,16,17::nat] = Inr [10]
   \<and> length [10::nat] \<noteq> length [10,11,12,13,14,15,16,17::nat]
   \<and> removal_draw [''03-01'', ''03-02'', ''03-03'', ''03-04'', ''03-05'', ''03-06'', ''03-07'']
        (num_blocks_to_remove Week 0 [''03-01'', ''03-02'', ''03-03'', ''03-04'', ''03-05'', ''03-06'', ''03-07''])
        [''03-03''] [1/2]
   \<and> non_adherence_cell Week 0 [''03-03''] [1/2]
         [(''03-01'', \<lparr>heart_rates = [60]\<rparr>), (''03-02'', \<lparr>heart_rates = [70]\<rparr>),
          (''03-03'', \<lparr>heart_rates = [80]\<rparr>), (''03-04'', \<lparr>heart_rates = [90]\<rparr>),
          (''03-05'', \<lparr>heart_rates = [65]\<rparr>), (''03-06'', \<lparr>heart_rates = [75]\<rparr>),
          (''03-07'', \<lparr>heart_rates = [85]\<rparr>)]
       = Inr ([(''03-01'', \<lparr>heart_rates = [60]\<rparr>), (''03-02'', \<lparr>heart_rates = [70]\<rparr>),
               (''03-04'', \<lparr>heart_rates = [90]\<rparr>),
               (''03-05'', \<lparr>heart_rates = [65]\<rparr>), (''03-06'', \<lparr>heart_rates = [75]\<rparr>),
               (''03-07'', \<lparr>heart_rates = [85]\<rparr>)],
              [''03-01'', ''03-02'', ''03-04'', ''03-05'', ''03-06'', ''03-07''])"
proof -
  let ?d = "[10,11,12,13,14,15,16,17::nat]"
  let ?k = "[''03-01'', ''03-02'', ''03-03'', ''03-04'', ''03-05'', ''03-06'', ''03-07'']"
  have n: "num_blocks Week ?d = 1" and k: "num_blocks_to_keep Week 1 ?d = 1"
    by (simp_all add: num_blocks_def num_blocks_to_keep_def block_length_def py_int_def)
  have "\<not> choice_raises (num_blocks Week ?d) (num_blocks_to_keep Week 1 ?d)"
    unfolding n k by (simp add: choice_raises_def)
  then have "AdherenceSimulator Week 1 [0] ?d =
      Inr (map ((!) ?d) (filter (\<lambda>i. i \<in> set [0]) [0..<length ?d]))"
    by (rule adherence_result)
  moreover have "filter (\<lambda>i. i \<in> set [0]) [0..<length ?d] = [0::nat]"
    by (simp add: upt_rec)
  ultimately have a: "AdherenceSimulator Week 1 [0] ?d = Inr [10]"
    by simp
  have b: "random_choice (num_blocks Week ?d) (num_blocks_to_keep Week 1 ?d) [0]"
    unfolding n k by (simp add: random_choice_def)
  have r: "num_blocks_to_remove Week 0 ?k = 1"
    by (simp add: num_blocks_to_remove_def block_length_def py_int_def)
  have c: "removal_draw ?k (num_blocks_to_remove Week 0 ?k) [''03-03''] [1/2]"
    unfolding r by (simp add: removal_draw_def)
  have d: "non_adherence_cell Week 0 [''03-03''] [1/2]
         [(''03-01'', \<lparr>heart_rates = [60]\<rparr>), (''03-02'', \<lparr>heart_rates = [70]\<rparr>),
          (''03-03'', \<lparr>heart_rates = [80]\<rparr>), (''03-04'', \<lparr>heart_rates = [90]\<rparr>),
          (''03-05'', \<lparr>heart_rates = [65]\<rparr>), (''03-06'', \<lparr>heart_rates = [75]\<rparr>),
          (''03-07'', \<lparr>heart_rates = [85]\<rparr>)]
       = Inr ([(''03-01'', \<lparr>heart_rates = [60]\<rparr>), (''03-02'', \<lparr>heart_rates = [70]\<rparr>),
               (''03-04'', \<lparr>heart_rates = [90]\<rparr>),
               (''03-05'', \<lparr>heart_rates = [65]\<rparr>), (''03-06'', \<lparr>heart_rates = [75]\<rparr>),
               (''03-07'', \<lparr>heart_rates = [85]\<rparr>)],
              [''03-01'', ''03-02'', ''03-04'', ''03-05'', ''03-06'', ''03-07''])"
    by (simp add: non_adherence_cell_def Let_def choice_raises_def num_blocks_to_remove_def
        block_length_def py_int_def AList.delete_eq)
  from a b c d show ?thesis by simp
qed

section \<open>Non-adherence simulation: when the call fails\<close>

text \<open>
  The function does not look at \<open>adherence_percent\<close> itself. The only failure is the one
  of \<open>np.random.choice\<close>, on the number of blocks to keep.
\<close>

lemma py_int_negative: "py_int x < 0 \<longleftrightarrow> x \<le> -1"
proof (cases "0 \<le> x")
  case True
  then show ?thesis by (simp add: py_int_def)
next
  case False
  have "\<lceil>x\<rceil> < 0 \<longleftrightarrow> \<lceil>x\<rceil> \<le> -1" by linarith
  also have "\<dots> \<longleftrightarrow> x \<le> -1" by (simp add: ceiling_le_iff)
  finally show ?thesis using False by (simp add: py_int_def)
qed

lemma py_int_exceeds: "int n < py_int x \<longleftrightarrow> real n + 1 \<le> x"
proof (cases "0 \<le> x")
  case True
  have "int n < \<lfloor>x\<rfloor> \<longleftrightarrow> int n + 1 \<le> \<lfloor>x\<rfloor>" by linarith
  also have "\<dots> \<longleftrightarrow> real n + 1 \<le> x" by (simp add: le_floor_iff)
  finally show ?thesis using True by (simp add: py_int_def)
next
  case False
  then have "\<lceil>x\<rceil> \<le> 0" by (simp add: ceiling_le_iff)
  then have "\<not> int n < \<lceil>x\<rceil>" by linarith
  moreover have "\<not> real n + 1 \<le> x" using False by linarith
  ultimately show ?thesis using False by (simp add: py_int_def)
qed

lemma py_int_small: "-1 < x \<Longrightarrow> x < 1 \<Longrightarrow> py_int x = 0"
  unfolding py_int_def by (auto intro: floor_unique ceiling_unique)


text \<open>
  C6 (as amended). \<open>AdherenceSimulator\<close> fails exactly when
  \<open>adherence_percent * num_blocks\<close> is at most \<open>-1\<close> or at least \<open>num_blocks + 1\<close>, that
  is when the number of blocks to keep is negative or more than there are; the error is
  the ValueError of \<open>np.random.choice\<close>, raised before any data is read; for a keep
  fraction inside \<open>[0, 1]\<close> the call raises no error.
\<close>

theorem adherence_error_condition:
  "(AdherenceSimulator b p idxes data = Inl ValueError \<longleftrightarrow>
      (p * real (num_blocks b data) \<le> -1 \<or> real (num_blocks b data) + 1 \<le> p * real (num_blocks b data)))
   \<and> (\<forall>e. AdherenceSimulator b p idxes data = Inl e \<longrightarrow> e = ValueError)
   \<and> (0 \<le> p \<and> p \<le> 1 \<longrightarrow> (\<exists>result. AdherenceSimulator b p idxes data = Inr result))"
proof (intro conjI allI impI)
  have "choice_raises (num_blocks b data) (num_blocks_to_keep b p data) \<longleftrightarrow>
      (p * real (num_blocks b data) \<le> -1 \<or> real (num_blocks b data) + 1 \<le> p * real (num_blocks b data))"
    by (simp add: choice_raises_def num_blocks_to_keep_def py_int_negative py_int_exceeds)
  then show "AdherenceSimulator b p idxes data = Inl ValueError \<longleftrightarrow>
      (p * real (num_blocks b data) \<le> -1 \<or> real (num_blocks b data) + 1 \<le> p * real (num_blocks b data))"
    by (simp add: AdherenceSimulator_def)
next
  fix e
  assume "AdherenceSimulator b p idxes data = Inl e"
  then show "e = ValueError"
    by (simp add: AdherenceSimulator_def split: if_splits)
next
  assume "0 \<le> p \<and> p \<le> 1"
  then show "\<exists>result. AdherenceSimulator b p idxes data = Inr result"
    using adherence_le [of p b idxes data] by blast
qed


text \<open>
  The theorem at a series of 4 days: the keep fractions \<open>-1/2\<close> and \<open>3/2\<close> fail,
  \<open>1/2\<close> returns.
\<close>

theorem adherence_error_condition_witness:
  "AdherenceSimulator Day (- 1/2) [] [10,11,12,13::nat] = Inl ValueError
   \<and> AdherenceSimulator Day (3/2) [0,1,2,3] [10,11,12,13::nat] = Inl ValueError
   \<and> (0::real) \<le> 1/2 \<and> (1/2::real) \<le> 1
   \<and> (\<exists>result. AdherenceSimulator Day (1/2) [2,0] [10,11,12,13::nat] = Inr result)"
proof -
  let ?d = "[10,11,12,13::nat]"
  have n: "num_blocks Day ?d = 4"
    by (simp add: num_blocks_def block_length_def)
  have a: "AdherenceSimulator Day (- 1/2) [] ?d = Inl ValueError"
    using adherence_error_condition [of Day "- 1/2" "[]" ?d] unfolding n by simp
  have b: "AdherenceSimulator Day (3/2) [0,1,2,3] ?d = Inl ValueError"
    using adherence_error_condition [of Day "3/2" "[0,1,2,3]" ?d] unfolding n by simp
  have c: "\<exists>result. AdherenceSimulator Day (1/2) [2,0] ?d = Inr result"
    using adherence_error_condition [of Day "1/2" "[2,0]" ?d] by simp
  from a b c show ?thesis by simp
qed


text \<open>
  The keep fractions \<open>1.01\<close> and \<open>-0.01\<close> are outside \<open>[0, 1]\<close>, and on a series of
  4 days the call returns: all four days for the first, none for the second.
\<close>

theorem adherence_out_of_range_accepted:
  "\<not> ((101/100::real) \<le> 1)
   \<and> random_choice (num_blocks Day [10,11,12,13::nat]) (num_blocks_to_keep Day (101/100) [10,11,12,13::nat]) [3,1,0,2]
   \<and> AdherenceSimulator Day (101/100) [3,1,0,2] [10,11,12,13::nat] = Inr [10,11,12,13]
   \<and> \<not> (0 \<le> (- 1/100::real))
   \<and> random_choice (num_blocks Day [10,11,12,13::nat]) (num_blocks_to_keep Day (- 1/100) [10,11,12,13::nat]) []
   \<and> AdherenceSimulator Day (- 1/100) [] [10,11,12,13::nat] = Inr []"
proof -
  let ?d = "[10,11,12,13::nat]"
  have n: "num_blocks Day ?d = 4"
    by (simp add: num_blocks_def block_length_def)
  have k1: "num_blocks_to_keep Day (101/100) ?d = 4"
    unfolding num_blocks_to_keep_def n by (simp add: py_int_def)
  have k2: "num_blocks_to_keep Day (- 1/100) ?d = 0"
    unfolding num_blocks_to_keep_def n by (simp add: py_int_small)
  have r1: "random_choice (num_blocks Day ?d) (num_blocks_to_keep Day (101/100) ?d) [3,1,0,2]"
    unfolding n k1 by (simp add: random_choice_def)
  have r2: "random_choice (num_blocks Day ?d) (num_blocks_to_keep Day (- 1/100) ?d) []"
    unfolding n k2 by (simp add: random_choice_def)
  have "\<not> choice_raises (num_blocks Day ?d) (num_blocks_to_keep Day (101/100) ?d)"
    unfolding n k1 by (simp add: choice_raises_def)
  then have "AdherenceSimulator Day (101/100) [3,1,0,2] ?d =
      Inr (map ((!) ?d) (filter (\<lambda>i. i \<in> set [3,1,0,2]) [0..<length ?d]))"
    by (rule adherence_result)
  moreover have "filter (\<lambda>i. i \<in> set [3,1,0,2]) [0..<length ?d] = [0,1,2,3::nat]"
    by (simp add: upt_rec)
  ultimately have a: "AdherenceSimulator Day (101/100) [3,1,0,2] ?d = Inr [10,11,12,13]"
    by simp
  have "\<not> choice_raises (num_blocks Day ?d) (num_blocks_to_keep Day (- 1/100) ?d)"
    unfolding n k2 by (simp add: choice_raises_def)
  then have "AdherenceSimulator Day (- 1/100) [] ?d =
      Inr (map ((!) ?d) (filter (\<lambda>i. i \<in> set []) [0..<length ?d]))"
    by (rule adherence_result)
  then have b: "AdherenceSimulator Day (- 1/100) [] ?d = Inr []"
    by simp
  from r1 a r2 b show ?thesis by simp
qed

section \<open>Non-adherence simulation: ninety days in week blocks\<close>

lemma filter_below: "k \<le> n \<Longrightarrow> filter (\<lambda>i. i < k) [0..<n] = [0..<k]"
proof (induction n)
  case 0
  then show ?case by simp
next
  case (Suc n)
  then show ?case by (cases "k = Suc n") auto
qed

lemma map_nth_upt: "k \<le> n \<Longrightarrow> map ((!) [0..<n]) [0..<k] = [0..<k]"
  by (rule nth_equalityI) simp_all


text \<open>
  C3 (as amended). For a series of 90 days, week blocks and \<open>adherence_percent = 0.89\<close>,
  \<open>AdherenceSimulator\<close> counts 12 blocks and keeps \<open>int(0.89 * 12) = 10\<close> of them: every
  possible draw is 10 distinct block numbers below 12, and the call returns without an
  error.
\<close>

theorem adherence_90_days_week_blocks:
  assumes "length data = 90"
  shows "num_blocks Week data = 12 \<and> num_blocks_to_keep Week (89/100) data = 10 \<and>
    (\<forall>idxes. random_choice (num_blocks Week data) (num_blocks_to_keep Week (89/100) data) idxes \<longrightarrow>
       length idxes = 10 \<and> distinct idxes \<and> set idxes \<subseteq> {0..<12} \<and>
       (\<exists>result. AdherenceSimulator Week (89/100) idxes data = Inr result))"
proof -
  have n: "num_blocks Week data = 12"
    using assms by (simp add: num_blocks_def block_length_def)
  have k: "num_blocks_to_keep Week (89/100) data = 10"
    unfolding num_blocks_to_keep_def n by (simp add: py_int_def)
  have "\<not> choice_raises (num_blocks Week data) (num_blocks_to_keep Week (89/100) data)"
    unfolding n k by (simp add: choice_raises_def)
  then have r: "\<And>idxes. \<exists>result. AdherenceSimulator Week (89/100) idxes data = Inr result"
    by (simp add: adherence_result)
  have "\<And>idxes. random_choice 12 10 idxes \<Longrightarrow>
      length idxes = 10 \<and> distinct idxes \<and> set idxes \<subseteq> {0..<12}"
    by (auto simp: random_choice_def)
  with n k r show ?thesis by simp
qed


text \<open>The theorem at the days \<open>0 .. 89\<close> and one draw of ten block numbers.\<close>

theorem adherence_90_days_week_blocks_witness:
  "length [0..<90] = 90
   \<and> num_blocks Week [0..<90] = 12 \<and> num_blocks_to_keep Week (89/100) [0..<90] = 10
   \<and> random_choice (num_blocks Week [0..<90]) (num_blocks_to_keep Week (89/100) [0..<90])
        [11,3,0,7,5,9,1,10,2,6]
   \<and> (\<exists>result. AdherenceSimulator Week (89/100) [11,3,0,7,5,9,1,10,2,6] [0..<90] = Inr result)"
proof -
  have len: "length [0..<90] = 90" by simp
  note inst = adherence_90_days_week_blocks [OF len]
  have n: "num_blocks Week [0..<90] = 12" and k: "num_blocks_to_keep Week (89/100) [0..<90] = 10"
    using inst by blast+
  have rc: "random_choice (num_blocks Week [0..<90]) (num_blocks_to_keep Week (89/100) [0..<90])
        [11,3,0,7,5,9,1,10,2,6]"
    unfolding n k by (simp add: random_choice_def)
  have "\<exists>result. AdherenceSimulator Week (89/100) [11,3,0,7,5,9,1,10,2,6] [0..<90] = Inr result"
    using inst rc by blast
  with len n k rc show ?thesis by blast
qed


text \<open>
  With the days numbered \<open>0 .. 89\<close> and the draw \<open>0 .. 9\<close> the function returns the ten
  days \<open>0 .. 9\<close>: day 7 of the second week is kept and day 13 of the same week is not,
  and the first week is the only one of the twelve that is kept whole.
\<close>

theorem adherence_week_split:
  "random_choice (num_blocks Week [0..<90]) (num_blocks_to_keep Week (89/100) [0..<90])
        [0,1,2,3,4,5,6,7,8,9]
   \<and> AdherenceSimulator Week (89/100) [0,1,2,3,4,5,6,7,8,9] [0..<90] = Inr [0,1,2,3,4,5,6,7,8,9]
   \<and> 7 \<in> set (week_positions 1) \<and> 7 \<in> set [0,1,2,3,4,5,6,7,8,9::nat]
   \<and> 13 \<in> set (week_positions 1) \<and> 13 \<notin> set [0,1,2,3,4,5,6,7,8,9::nat]
   \<and> filter (\<lambda>w. set (week_positions w) \<subseteq> set [0,1,2,3,4,5,6,7,8,9]) [0..<12] = [0]"
proof -
  have idx: "[0,1,2,3,4,5,6,7,8,9] = [0..<10]"
    by (simp add: upt_rec)
  have n: "num_blocks Week [0..<90] = 12"
    by (simp add: num_blocks_def block_length_def)
  have k: "num_blocks_to_keep Week (89/100) [0..<90] = 10"
    unfolding num_blocks_to_keep_def n by (simp add: py_int_def)
  have rc: "random_choice (num_blocks Week [0..<90]) (num_blocks_to_keep Week (89/100) [0..<90]) [0..<10]"
    unfolding n k by (simp add: random_choice_def)
  have "\<not> choice_raises (num_blocks Week [0..<90]) (num_blocks_to_keep Week (89/100) [0..<90])"
    unfolding n k by (simp add: choice_raises_def)
  then have "AdherenceSimulator Week (89/100) [0..<10] [0..<90] =
      Inr (map ((!) [0..<90]) (filter (\<lambda>i. i \<in> set [0..<10]) [0..<length [0..<90]]))"
    by (rule adherence_result)
  moreover have "filter (\<lambda>i. i \<in> set [0..<10]) [0..<length [0..<90]] = [0..<10]"
    using filter_below [of 10 90] by simp
  ultimately have res: "AdherenceSimulator Week (89/100) [0..<10] [0..<90] = Inr [0..<10]"
    using map_nth_upt [of 10 90] by simp
  have w: "7 \<in> set (week_positions 1) \<and> 7 \<in> set [0..<10] \<and> 13 \<in> set (week_positions 1) \<and> 13 \<notin> set [0..<10]"
    by (simp add: week_positions_def)
  have whole: "\<And>w. set (week_positions w) \<subseteq> set [0..<10] \<longleftrightarrow> w = 0"
    by (auto simp: week_positions_def)
  have "filter (\<lambda>w. set (week_positions w) \<subseteq> set [0..<10]) [0..<12] = filter (\<lambda>w. w < 1) [0..<12]"
    using whole by simp
  also have "\<dots> = [0..<1]"
    by (rule filter_below) simp
  finally have f: "filter (\<lambda>w. set (week_positions w) \<subseteq> set [0..<10]) [0..<12] = [0]"
    by simp
  from rc res w f show ?thesis
    unfolding idx by blast
qed

section \<open>What the statistical analysis does to the frame\<close>

lemma set_column_fields:
  "datetime (set_column name c df) = datetime df"
  "glucose_level (set_column name c df) = glucose_level df"
  "map_of (other_columns (set_column name c df)) = (map_of (other_columns df))(name \<mapsto> c)"
  by (simp_all add: set_column_def update_conv')

lemma time_of_day_cell_fields:
  "datetime (time_of_day_cell df) = datetime df"
  "glucose_level (time_of_day_cell df) = glucose_level df"
  "map_of (other_columns (time_of_day_cell df)) =
     (map_of (other_columns df))(''Time of Day'' \<mapsto>
        StrCol (map (\<lambda>b. if b then ''Day'' else ''Night'') (day_mask (datetime df))))"
  by (simp_all add: time_of_day_cell_def Let_def set_column_fields)

lemma rates_of_change_cong:
  "datetime df' = datetime df \<Longrightarrow> glucose_level df' = glucose_level df \<Longrightarrow>
     rates_of_change df' = rates_of_change df"
  by (simp add: rates_of_change_def)

lemma rates_cell_fields:
  "datetime (snd (rates_cell df)) = datetime df"
  "glucose_level (snd (rates_cell df)) = glucose_level df"
  "map_of (other_columns (snd (rates_cell df))) =
     (if fst (rates_cell df) = None
      then (map_of (other_columns (time_of_day_cell df)))(''Rates of change'' \<mapsto>
              FloatCol (rates_of_change df @ [Some 0]))
      else map_of (other_columns (time_of_day_cell df)))"
  by (simp_all add: rates_cell_def Let_def set_column_fields time_of_day_cell_fields
      rates_of_change_cong [of "time_of_day_cell df" df])

lemma rates_cell_error:
  "fst (rates_cell df) = (if length (glucose_level df) - 1 + 1 \<noteq> nrows df then Some ValueError else None)"
  by (simp add: rates_cell_def Let_def nrows_def time_of_day_cell_fields rates_of_change_def)


text \<open>
  C7 (as amended). The cells of sections 9.1 and 9.2 leave every timestamp and every
  glucose value of \<open>df\<close> unchanged, and every other column except \<open>Time of Day\<close> and
  \<open>Rates of change\<close>; they set the column \<open>Time of Day\<close> to the labels \<open>Day\<close> and
  \<open>Night\<close> and, on a frame that is not empty, the column \<open>Rates of change\<close> to the rates
  of change followed by 0, adding the column when the frame does not have it.
\<close>

theorem stat_summary_frame:
  "datetime (snd (stat_summary df)) = datetime df
   \<and> glucose_level (snd (stat_summary df)) = glucose_level df
   \<and> (\<forall>name. name \<noteq> ''Time of Day'' \<and> name \<noteq> ''Rates of change'' \<longrightarrow>
          map_of (other_columns (snd (stat_summary df))) name = map_of (other_columns df) name)
   \<and> map_of (other_columns (snd (stat_summary df))) ''Time of Day'' =
        Some (StrCol (map (\<lambda>b. if b then ''Day'' else ''Night'') (day_mask (datetime df))))
   \<and> (nrows df \<noteq> 0 \<and> length (glucose_level df) = nrows df \<longrightarrow>
          fst (stat_summary df) = None \<and>
          map_of (other_columns (snd (stat_summary df))) ''Rates of change'' =
            Some (FloatCol (rates_of_change df @ [Some 0])))"
proof -
  let ?df1 = "time_of_day_cell df"
  have rc: "rates_of_change ?df1 = rates_of_change df"
    by (rule rates_of_change_cong) (simp_all add: time_of_day_cell_fields)
  have tod: "map_of (other_columns (time_of_day_cell ?df1)) = map_of (other_columns ?df1)"
    by (simp add: time_of_day_cell_fields)
  have cols: "map_of (other_columns (snd (stat_summary df))) =
     (if fst (stat_summary df) = None
      then (map_of (other_columns ?df1))(''Rates of change'' \<mapsto> FloatCol (rates_of_change df @ [Some 0]))
      else map_of (other_columns ?df1))"
    unfolding stat_summary_def by (simp only: rates_cell_fields tod rc)
  have err: "nrows df \<noteq> 0 \<and> length (glucose_level df) = nrows df \<longrightarrow> fst (stat_summary df) = None"
    unfolding stat_summary_def by (auto simp: rates_cell_error time_of_day_cell_fields nrows_def)
  show ?thesis
  proof (intro conjI allI impI)
    show "datetime (snd (stat_summary df)) = datetime df"
      by (simp add: stat_summary_def rates_cell_fields time_of_day_cell_fields)
    show "glucose_level (snd (stat_summary df)) = glucose_level df"
      by (simp add: stat_summary_def rates_cell_fields time_of_day_cell_fields)
    show "map_of (other_columns (snd (stat_summary df))) ''Time of Day'' =
        Some (StrCol (map (\<lambda>b. if b then ''Day'' else ''Night'') (day_mask (datetime df))))"
      by (simp add: cols time_of_day_cell_fields)
  next
    fix name :: string
    assume "name \<noteq> ''Time of Day'' \<and> name \<noteq> ''Rates of change''"
    then show "map_of (other_columns (snd (stat_summary df))) name = map_of (other_columns df) name"
      by (simp add: cols time_of_day_cell_fields)
  next
    assume a: "nrows df \<noteq> 0 \<and> length (glucose_level df) = nrows df"
    then show "fst (stat_summary df) = None" using err by blast
    then show "map_of (other_columns (snd (stat_summary df))) ''Rates of change'' =
            Some (FloatCol (rates_of_change df @ [Some 0]))"
      by (simp add: cols)
  qed
qed

text \<open>
  Three readings five minutes apart around 9 o'clock, in a frame that has a column
  \<open>glucose_level_diff\<close> already.
\<close>

lemma day_mask_example: "day_mask [32100, 32400, 32700] = [False, True, True]"
  by (simp add: day_mask_def Let_def time_of_def dayStart_def dayEnd_def)

lemma rates_example:
  "rates_of_change \<lparr>datetime = [32100, 32400, 32700],
       glucose_level = [Some 100, Some 110, Some 105], other_columns = cols\<rparr>
     = [Some 2, Some (- 1)]"
  by (simp add: rates_of_change_def rate_def Let_def upt_rec)


theorem stat_summary_frame_witness:
  "''glucose_level_diff'' \<noteq> ''Time of Day'' \<and> ''glucose_level_diff'' \<noteq> ''Rates of change''
   \<and> nrows \<lparr>datetime = [32100, 32400, 32700], glucose_level = [Some 100, Some 110, Some 105],
        other_columns = [(''glucose_level_diff'', FloatCol [None, Some 10, Some (- 5)])]\<rparr> \<noteq> 0
   \<and> fst (stat_summary \<lparr>datetime = [32100, 32400, 32700], glucose_level = [Some 100, Some 110, Some 105],
        other_columns = [(''glucose_level_diff'', FloatCol [None, Some 10, Some (- 5)])]\<rparr>) = None
   \<and> datetime (snd (stat_summary \<lparr>datetime = [32100, 32400, 32700], glucose_level = [Some 100, Some 110, Some 105],
        other_columns = [(''glucose_level_diff'', FloatCol [None, Some 10, Some (- 5)])]\<rparr>)) = [32100, 32400, 32700]
   \<and> glucose_level (snd (stat_summary \<lparr>datetime = [32100, 32400, 32700], glucose_level = [Some 100, Some 110, Some 105],
        other_columns = [(''glucose_level_diff'', FloatCol [None, Some 10, Some (- 5)])]\<rparr>))
        = [Some 100, Some 110, Some 105]
   \<and> map_of (other_columns (snd (stat_summary \<lparr>datetime = [32100, 32400, 32700],
        glucose_level = [Some 100, Some 110, Some 105],
        other_columns = [(''glucose_level_diff'', FloatCol [None, Some 10, Some (- 5)])]\<rparr>))) ''glucose_level_diff''
        = Some (FloatCol [None, Some 10, Some (- 5)])
   \<and> map_of (other_columns (snd (stat_summary \<lparr>datetime = [32100, 32400, 32700],
        glucose_level = [Some 100, Some 110, Some 105],
        other_columns = [(''glucose_level_diff'', FloatCol [None, Some 10, Some (- 5)])]\<rparr>))) ''Time of Day''
        = Some (StrCol [''Night'', ''Day'', ''Day''])
   \<and> map_of (other_columns (snd (stat_summary \<lparr>datetime = [32100, 32400, 32700],
        glucose_level = [Some 100, Some 110, Some 105],
        other_columns = [(''glucose_level_diff'', FloatCol [None, Some 10, Some (- 5)])]\<rparr>))) ''Rates of change''
        = Some (FloatCol [Some 2, Some (- 1), Some 0])"
proof -
  define df where "df = \<lparr>datetime = [32100, 32400, 32700], glucose_level = [Some 100, Some 110, Some 105],
        other_columns = [(''glucose_level_diff'', FloatCol [None, Some 10, Some (- 5)])]\<rparr>"
  note inst = stat_summary_frame [of df]
  note i1 = inst [THEN conjunct1]
  note i2 = inst [THEN conjunct2, THEN conjunct1]
  note i3 = inst [THEN conjunct2, THEN conjunct2, THEN conjunct1]
  note i4 = inst [THEN conjunct2, THEN conjunct2, THEN conjunct2, THEN conjunct1]
  note i5 = inst [THEN conjunct2, THEN conjunct2, THEN conjunct2, THEN conjunct2]
  have names: "''glucose_level_diff'' \<noteq> ''Time of Day'' \<and> ''glucose_level_diff'' \<noteq> ''Rates of change''"
    by simp
  have rows: "nrows df \<noteq> 0 \<and> length (glucose_level df) = nrows df"
    by (simp add: df_def nrows_def)
  have mask: "day_mask (datetime df) = [False, True, True]"
    using day_mask_example by (simp add: df_def)
  have rates: "rates_of_change df = [Some 2, Some (- 1)]"
    unfolding df_def by (rule rates_example)
  have a: "datetime (snd (stat_summary df)) = [32100, 32400, 32700]"
    unfolding i1 by (simp add: df_def)
  have b: "glucose_level (snd (stat_summary df)) = [Some 100, Some 110, Some 105]"
    unfolding i2 by (simp add: df_def)
  have "map_of (other_columns (snd (stat_summary df))) ''glucose_level_diff''
      = map_of (other_columns df) ''glucose_level_diff''"
    using i3 [rule_format, OF names] .
  then have c: "map_of (other_columns (snd (stat_summary df))) ''glucose_level_diff''
      = Some (FloatCol [None, Some 10, Some (- 5)])"
    by (simp add: df_def)
  have d: "map_of (other_columns (snd (stat_summary df))) ''Time of Day''
      = Some (StrCol [''Night'', ''Day'', ''Day''])"
    unfolding i4 mask by simp
  note i6 = i5 [THEN mp, OF rows]
  have e: "fst (stat_summary df) = None"
    using i6 by (rule conjunct1)
  have f: "map_of (other_columns (snd (stat_summary df))) ''Rates of change''
      = Some (FloatCol [Some 2, Some (- 1), Some 0])"
    unfolding i6 [THEN conjunct2] rates by simp
  from rows have g: "nrows df \<noteq> 0" by (rule conjunct1)
  show ?thesis
    unfolding df_def [symmetric]
    using g e a b c d f by simp
qed

text \<open>
  The same readings in a frame of the two columns \<open>datetime\<close> and \<open>glucose_level\<close>:
  after the two sections the frame has four columns.
\<close>

theorem stat_summary_adds_columns:
  "column_names \<lparr>datetime = [32100, 32400, 32700], glucose_level = [Some 100, Some 110, Some 105],
        other_columns = []\<rparr> = [''datetime'', ''glucose_level'']
   \<and> fst (stat_summary \<lparr>datetime = [32100, 32400, 32700], glucose_level = [Some 100, Some 110, Some 105],
        other_columns = []\<rparr>) = None
   \<and> column_names (snd (stat_summary \<lparr>datetime = [32100, 32400, 32700],
        glucose_level = [Some 100, Some 110, Some 105], other_columns = []\<rparr>))
        = [''datetime'', ''glucose_level'', ''Time of Day'', ''Rates of change'']"
proof -
  have rates: "rates_of_change (time_of_day_cell (time_of_day_cell
       \<lparr>datetime = [32100, 32400, 32700], glucose_level = [Some 100, Some 110, Some 105],
        other_columns = []\<rparr>)) = [Some 2, Some (- 1)]"
    using rates_of_change_cong [of "time_of_day_cell (time_of_day_cell
       \<lparr>datetime = [32100, 32400, 32700], glucose_level = [Some 100, Some 110, Some 105],
        other_columns = []\<rparr>)" "\<lparr>datetime = [32100, 32400, 32700], glucose_level = [Some 100, Some 110, Some 105],
        other_columns = []\<rparr>"] rates_example [of "[]"]
    by (simp add: time_of_day_cell_fields)
  show ?thesis
    unfolding stat_summary_def rates_cell_def Let_def rates
    by (simp add: column_names_def time_of_day_cell_def set_column_def Let_def nrows_def)
qed

section \<open>The neighbour-mean replacement\<close>


lemma replace_loop_nth:
  "i < length col \<Longrightarrow> replace_loop cx idxs col ! i =
     (if i \<in> set idxs then np_mean (neighbour_vals cx i) else col ! i)"
  unfolding replace_loop_def
proof (induction idxs arbitrary: col)
  case Nil
  then show ?case by simp
next
  case (Cons j js)
  then show ?case by (auto simp: replace_step_def nth_list_update)
qed









subsection \<open>A column with two adjacent spikes\<close>

text \<open>
  Twelve heart rates with the spikes 200 at rows 5 and 6; at threshold 2 exactly these
  two rows are flagged.
\<close>

lemma detect_and_clean_at:
  "i < length col \<Longrightarrow> detect_and_clean col t ! i =
     (if i \<in> set (flagged_indices (abs_zscores col) t) then np_mean (neighbour_vals col i) else col ! i)"
  by (simp add: detect_and_clean_def Let_def replace_loop_nth)

lemma flagged_two_spikes:
  "flagged_indices (abs_zscores (map Some [60,61,62,63,64,200,200,67,68,69,70,71])) 2 = [5, 6]"
  using flagged_indices_eval [of 2 "[60,61,62,63,64,200,200,67,68,69,70,71]"]
  by (simp add: Let_def)

lemma neighbour_vals_two_spikes:
  "neighbour_vals (map Some [60,61,62,63,64,200,200,67,68,69,70,71::real]) 5
     = map Some [62, 63, 200, 67]"
  "neighbour_vals (map Some [60,61,62,63,64,200,200,67,68,69,70,71::real]) 6
     = map Some [63, 64, 67, 68]"
  by (simp_all add: neighbour_vals_def slice_one)

lemma cleaned_two_spikes:
  "detect_and_clean (map Some [60,61,62,63,64,200,200,67,68,69,70,71]) 2 ! 5 = Some 98"
  "detect_and_clean (map Some [60,61,62,63,64,200,200,67,68,69,70,71]) 2 ! 6 = Some (131 / 2)"
proof -
  let ?A = "map Some [60,61,62,63,64,200,200,67,68,69,70,71::real]"
  have m5: "np_mean (neighbour_vals ?A 5) = Some 98"
    unfolding neighbour_vals_two_spikes using np_mean_Some [of "[62, 63, 200, 67]"] by simp
  have m6: "np_mean (neighbour_vals ?A 6) = Some (131 / 2)"
    unfolding neighbour_vals_two_spikes using np_mean_Some [of "[63, 64, 67, 68]"] by simp
  show "detect_and_clean ?A 2 ! 5 = Some 98"
    using detect_and_clean_at [of 5 ?A 2] m5 unfolding flagged_two_spikes by simp
  show "detect_and_clean ?A 2 ! 6 = Some (131 / 2)"
    using detect_and_clean_at [of 6 ?A 2] m6 unfolding flagged_two_spikes by simp
qed





text \<open>
  C9. At the same column the values read for row 5 hold the original 200 of row 6, and
  the values read for row 6 are those of rows 3, 4, 7 and 8: neither the original 200
  of row 5 nor its replacement 98 is among them.
\<close>

theorem adjacent_flagged_neighbour_left_out:
  "flagged_indices (abs_zscores (map Some [60,61,62,63,64,200,200,67,68,69,70,71])) 2 = [5, 6]
   \<and> map Some [60,61,62,63,64,200,200,67,68,69,70,71::real] ! 5 = Some 200
   \<and> neighbour_vals (map Some [60,61,62,63,64,200,200,67,68,69,70,71::real]) 5 = map Some [62, 63, 200, 67]
   \<and> neighbour_vals (map Some [60,61,62,63,64,200,200,67,68,69,70,71::real]) 6 = map Some [63, 64, 67, 68]
   \<and> detect_and_clean (map Some [60,61,62,63,64,200,200,67,68,69,70,71]) 2 ! 5 = Some 98
   \<and> detect_and_clean (map Some [60,61,62,63,64,200,200,67,68,69,70,71]) 2 ! 6 = Some (131 / 2)"
  using flagged_two_spikes neighbour_vals_two_spikes cleaned_two_spikes by simp


subsection \<open>A spike in the first row\<close>

lemma neighbour_vals_spike_first:
  "neighbour_vals (map Some [1000,1,2,3,5,5,6,7,8,40,80,11::real]) 0 = map Some [40, 80, 1, 2]"
  by (simp add: neighbour_vals_def slice_one)


text \<open>
  C5. Twelve values with a spike in row 0, flagged at threshold 3. The slices
  \<open>cx[-3:-2]\<close> and \<open>cx[-2:-1]\<close> are the rows 9 and 10 at the other end of the column,
  and row 0 gets the mean of 40, 80, 1 and 2.
\<close>

theorem boundary_replacement_wraps:
  "flagged_indices (abs_zscores (map Some [1000,1,2,3,5,5,6,7,8,40,80,11])) 3 = [0]
   \<and> neighbour_vals (map Some [1000,1,2,3,5,5,6,7,8,40,80,11::real]) 0 = map Some [40, 80, 1, 2]
   \<and> map Some [1000,1,2,3,5,5,6,7,8,40,80,11::real] ! 9 = Some 40
   \<and> map Some [1000,1,2,3,5,5,6,7,8,40,80,11::real] ! 10 = Some 80
   \<and> detect_and_clean (map Some [1000,1,2,3,5,5,6,7,8,40,80,11]) 3 ! 0 = Some (123 / 4)"
proof -
  let ?B = "map Some [1000,1,2,3,5,5,6,7,8,40,80,11::real]"
  have fl: "flagged_indices (abs_zscores ?B) 3 = [0]"
    using flagged_indices_eval [of 3 "[1000,1,2,3,5,5,6,7,8,40,80,11]"]
    by (simp add: Let_def)
  have m: "np_mean (neighbour_vals ?B 0) = Some (123 / 4)"
    unfolding neighbour_vals_spike_first using np_mean_Some [of "[40, 80, 1, 2]"] by simp
  have "detect_and_clean ?B 3 ! 0 = Some (123 / 4)"
    using detect_and_clean_at [of 0 ?B 3] m unfolding fl by simp
  then show ?thesis
    using fl neighbour_vals_spike_first by simp
qed

end
